theory Spec2Isabelle
  imports Complex_Main
begin

section \<open>Space Invaders: the per-frame simulation of \<^verbatim>\<open>src/main.cpp\<close>\<close>

text \<open>
  The development embeds the simulation core of the game: the entity classes, the spawn
  schedulers, the reaping passes, the collision pass and the PLAYING/GAME_OVER loop.

  Conventions of the embedding.
  \<^item> A C++ \<^verbatim>\<open>float\<close> is an exact \<^typ>\<open>real\<close>: rounding is not modelled.
  \<^item> A C++ \<^verbatim>\<open>int\<close> is an unbounded \<^typ>\<open>int\<close>: signed overflow is undefined
    behaviour in C++ and lies outside the model.
  \<^item> A mutating member function takes the object and returns the updated object.
  \<^item> \<^verbatim>\<open>std::vector\<close> is a list; \<^verbatim>\<open>push_back\<close>/\<^verbatim>\<open>emplace_back\<close> append at the end.
    The enemies are held through owning pointers, one object per pointer, so the vector of
    pointers is the list of the objects.
  \<^item> Rendering draws the current state and changes nothing; it is not embedded.
\<close>

subsection \<open>Enumerations and geometry\<close>

datatype EnemyType = SIMPLE | MID | HARD | BOSS
datatype UpgradeType = HEALTH | FIRE_RATE | ATTACK_RANGE
datatype GameState = PLAYING | GAME_OVER

datatype Color = RED | GREEN | BLUE | YELLOW | PURPLE | ORANGE

record Vector2 =
  v_x :: real
  v_y :: real

record Rectangle =
  r_x :: real
  r_y :: real
  r_width :: real
  r_height :: real

subsection \<open>The platform (raylib), which is not part of the repository\<close>

text \<open>\<^verbatim>\<open>InitWindow(800, 600, ...)\<close> in \<^verbatim>\<open>Game::Run\<close> fixes the screen size.\<close>

definition GetScreenWidth :: int where
  "GetScreenWidth = 800"

definition GetScreenHeight :: int where
  "GetScreenHeight = 600"

text \<open>
  The library's random generator is process-wide state. Its state is modelled as the tape
  of the raw values it will yield next; \<^verbatim>\<open>GetRandomValue(lo, hi)\<close> consumes one raw value
  and maps it into the closed range \<open>lo .. hi\<close> (both bounds included, as the library
  documents). An exhausted tape yields the raw value 0.
\<close>

type_synonym rng = "nat list"

definition GetRandomValue :: "int \<Rightarrow> int \<Rightarrow> rng \<Rightarrow> int \<times> rng" where
  "GetRandomValue lo hi g =
     (case g of
        [] \<Rightarrow> (lo, [])
      | r # rest \<Rightarrow> (lo + int (r mod nat (hi - lo + 1)), rest))"

text \<open>The two overlap tests of the library, as its source defines them.\<close>

definition CheckCollisionRecs :: "Rectangle \<Rightarrow> Rectangle \<Rightarrow> bool" where
  "CheckCollisionRecs rec1 rec2 \<longleftrightarrow>
     (r_x rec1 < r_x rec2 + r_width rec2 \<and> r_x rec1 + r_width rec1 > r_x rec2) \<and>
     (r_y rec1 < r_y rec2 + r_height rec2 \<and> r_y rec1 + r_height rec1 > r_y rec2)"

definition CheckCollisionCircleRec :: "Vector2 \<Rightarrow> real \<Rightarrow> Rectangle \<Rightarrow> bool" where
  "CheckCollisionCircleRec center radius rec =
     (let recCenterX = r_x rec + r_width rec / 2;
          recCenterY = r_y rec + r_height rec / 2;
          dx = \<bar>v_x center - recCenterX\<bar>;
          dy = \<bar>v_y center - recCenterY\<bar>
      in if dx > r_width rec / 2 + radius then False
         else if dy > r_height rec / 2 + radius then False
         else if dx \<le> r_width rec / 2 then True
         else if dy \<le> r_height rec / 2 then True
         else (dx - r_width rec / 2) * (dx - r_width rec / 2) +
              (dy - r_height rec / 2) * (dy - r_height rec / 2) \<le> radius * radius)"

text \<open>The audio system only receives cues; the model records them in order.\<close>

datatype AudioCue = MusicUpdate | MusicPlay | MusicStop | Laser | Explosion | UpgradeCue

type_synonym AudioSystem = "AudioCue list"

definition PlayLaser :: "AudioSystem \<Rightarrow> AudioSystem" where
  "PlayLaser a = a @ [Laser]"

definition PlayExplosion :: "AudioSystem \<Rightarrow> AudioSystem" where
  "PlayExplosion a = a @ [Explosion]"

definition PlayUpgrade :: "AudioSystem \<Rightarrow> AudioSystem" where
  "PlayUpgrade a = a @ [UpgradeCue]"

definition PlayMusic :: "AudioSystem \<Rightarrow> AudioSystem" where
  "PlayMusic a = a @ [MusicPlay]"

definition StopMusic :: "AudioSystem \<Rightarrow> AudioSystem" where
  "StopMusic a = a @ [MusicStop]"

definition AudioUpdate :: "AudioSystem \<Rightarrow> AudioSystem" where
  "AudioUpdate a = a @ [MusicUpdate]"

subsection \<open>GameObject\<close>

record GameObject =
  position :: Vector2
  speed :: real
  health :: int
  color :: Color
  width :: real
  height :: real

definition GetHitbox :: "'a GameObject_scheme \<Rightarrow> Rectangle" where
  "GetHitbox obj =
     \<lparr>r_x = v_x (position obj), r_y = v_y (position obj),
      r_width = width obj, r_height = height obj\<rparr>"

definition GetPosition :: "'a GameObject_scheme \<Rightarrow> Vector2" where
  "GetPosition obj = position obj"

definition IsDead :: "'a GameObject_scheme \<Rightarrow> bool" where
  "IsDead obj \<longleftrightarrow> health obj \<le> 0"

definition TakeDamage :: "int \<Rightarrow> 'a GameObject_scheme \<Rightarrow> 'a GameObject_scheme" where
  "TakeDamage amount obj = obj\<lparr>health := health obj - amount\<rparr>"

subsection \<open>Bullet\<close>

record Bullet =
  b_position :: Vector2
  b_speed :: real
  isPlayerBullet :: bool
  b_color :: Color
  damage :: int

definition mkBullet :: "Vector2 \<Rightarrow> bool \<Rightarrow> int \<Rightarrow> Bullet" where
  "mkBullet pos isPlayer dmg =
     \<lparr>b_position = pos,
      b_speed = (if isPlayer then - 500 else 300),
      isPlayerBullet = isPlayer,
      b_color = (if isPlayer then YELLOW else RED),
      damage = dmg\<rparr>"

definition Bullet_Update :: "real \<Rightarrow> Bullet \<Rightarrow> Bullet" where
  "Bullet_Update dt b =
     b\<lparr>b_position := (b_position b)\<lparr>v_y := v_y (b_position b) + b_speed b * dt\<rparr>\<rparr>"

definition IsOutOfScreen :: "Bullet \<Rightarrow> bool" where
  "IsOutOfScreen b \<longleftrightarrow>
     v_y (b_position b) < 0 \<or> v_y (b_position b) > real_of_int GetScreenHeight"

subsection \<open>Player\<close>

record Player = GameObject +
  fireCooldown :: real
  fireRate :: real
  attackRange :: real
  maxHealth :: int

definition newPlayer :: Player where
  "newPlayer =
     \<lparr>position = \<lparr>v_x = 400, v_y = 550\<rparr>, speed = 300, health = 3, color = BLUE,
      width = 50, height = 20,
      fireCooldown = 0, fireRate = 0.5, attackRange = 50, maxHealth = 3\<rparr>"

definition Reset :: "Player \<Rightarrow> Player" where
  "Reset p = p\<lparr>position := \<lparr>v_x = 400, v_y = 550\<rparr>, health := maxHealth p, fireCooldown := 0\<rparr>"

definition IncreaseMaxHealth :: "Player \<Rightarrow> Player" where
  "IncreaseMaxHealth p = p\<lparr>maxHealth := maxHealth p + 1, health := health p + 1\<rparr>"

definition UpgradeFireRate :: "Player \<Rightarrow> Player" where
  "UpgradeFireRate p =
     p\<lparr>fireRate := (if fireRate p - 0.1 < 0.1 then 0.1 else fireRate p - 0.1)\<rparr>"

definition UpgradeAttackRange :: "Player \<Rightarrow> Player" where
  "UpgradeAttackRange p = p\<lparr>attackRange := attackRange p + 10\<rparr>"

text \<open>The keys the platform reports as held down during a frame.\<close>

record Keys =
  keyLeft :: bool
  keyRight :: bool
  keyEnter :: bool

definition Player_Update ::
  "Keys \<Rightarrow> real \<Rightarrow> Player \<times> Bullet list \<times> AudioSystem \<Rightarrow> (Player \<times> Bullet list \<times> AudioSystem) \<times> bool"
where
  "Player_Update keys dt st =
     (case st of (p, bullets, audio) \<Rightarrow>
        let x0 = v_x (position p);
            x1 = (if keyLeft keys then x0 - speed p * dt else x0);
            x2 = (if keyRight keys then x1 + speed p * dt else x1);
            x3 = (if x2 < 0 then 0 else x2);
            x4 = (if x3 > real_of_int GetScreenWidth - width p
                  then real_of_int GetScreenWidth - width p else x3);
            p1 = p\<lparr>position := (position p)\<lparr>v_x := x4\<rparr>\<rparr>;
            p2 = p1\<lparr>fireCooldown := fireCooldown p1 - dt\<rparr>
        in if fireCooldown p2 \<le> 0
           then ((p2\<lparr>fireCooldown := fireRate p2\<rparr>,
                  bullets @ [mkBullet \<lparr>v_x = v_x (position p2) + width p2 / 2,
                                       v_y = v_y (position p2)\<rparr> True 1],
                  PlayLaser audio), True)
           else ((p2, bullets, audio), False))"

subsection \<open>Enemy\<close>

record Enemy = GameObject +
  shootTimer :: real
  shootInterval :: real
  type :: EnemyType
  scoreValue :: int

definition newEnemy :: "Vector2 \<Rightarrow> EnemyType \<Rightarrow> Enemy" where
  "newEnemy pos t =
     (let w = (if t = BOSS then 120 else 40);
          h = (if t = BOSS then 120 else 40)
      in case t of
           SIMPLE \<Rightarrow>
             \<lparr>position = pos, speed = 50, health = 1, color = RED, width = w, height = h,
              shootTimer = 0, shootInterval = 2, type = t, scoreValue = 10\<rparr>
         | MID \<Rightarrow>
             \<lparr>position = pos, speed = 70, health = 1, color = GREEN, width = w, height = h,
              shootTimer = 0, shootInterval = 2, type = t, scoreValue = 25\<rparr>
         | HARD \<Rightarrow>
             \<lparr>position = pos, speed = 90, health = 2, color = PURPLE, width = w, height = h,
              shootTimer = 0, shootInterval = 2, type = t, scoreValue = 50\<rparr>
         | BOSS \<Rightarrow>
             \<lparr>position = pos, speed = 40, health = 7, color = ORANGE, width = w, height = h,
              shootTimer = 0, shootInterval = 2, type = t, scoreValue = 500\<rparr>)"

text \<open>
  The two function-local \<^verbatim>\<open>static\<close> variables of \<^verbatim>\<open>Enemy::Update\<close> are shared by every
  boss and live as long as the process.
\<close>

record BossStatics =
  directionChangeTimer :: real
  direction :: Vector2

definition initStatics :: BossStatics where
  "initStatics = \<lparr>directionChangeTimer = 0, direction = \<lparr>v_x = 0, v_y = 1\<rparr>\<rparr>"

text \<open>The boss's volley: the loop \<^verbatim>\<open>for (int i = 0; i < 3; i++)\<close>, counted down.\<close>

fun bossVolley :: "nat \<Rightarrow> Enemy \<Rightarrow> Bullet list \<times> rng \<Rightarrow> Bullet list \<times> rng" where
  "bossVolley 0 e (bullets, g) = (bullets, g)"
| "bossVolley (Suc n) e (bullets, g) =
     (case GetRandomValue (- 20) 20 g of (r, g') \<Rightarrow>
        bossVolley n e
          (bullets @ [mkBullet \<lparr>v_x = v_x (position e) + width e / 2 + real_of_int r,
                                v_y = v_y (position e) + height e\<rparr> False 2], g'))"

definition Enemy_Update ::
  "real \<Rightarrow> Enemy \<times> Bullet list \<times> rng \<times> BossStatics
     \<Rightarrow> (Enemy \<times> Bullet list \<times> rng \<times> BossStatics) \<times> bool"
where
  "Enemy_Update dt st =
     (case st of (e, bullets, g, statics) \<Rightarrow>
        if type e = BOSS then
          let timer1 = directionChangeTimer statics + dt;
              (statics1, g1) =
                (if timer1 \<ge> 1.5 then
                   (case GetRandomValue (- 10) 10 g of (rx, ga) \<Rightarrow>
                    case GetRandomValue 5 10 ga of (ry, gb) \<Rightarrow>
                      (\<lparr>directionChangeTimer = 0,
                        direction = \<lparr>v_x = real_of_int rx / 10, v_y = real_of_int ry / 10\<rparr>\<rparr>, gb))
                 else (statics\<lparr>directionChangeTimer := timer1\<rparr>, g));
              x1 = v_x (position e) + v_x (direction statics1) * speed e * dt;
              y1 = v_y (position e) + v_y (direction statics1) * speed e * dt;
              x2 = (if x1 < 0 then 0 else x1);
              x3 = (if x2 > real_of_int GetScreenWidth - width e
                    then real_of_int GetScreenWidth - width e else x2);
              e1 = e\<lparr>position := \<lparr>v_x = x3, v_y = y1\<rparr>\<rparr>;
              e2 = e1\<lparr>shootTimer := shootTimer e1 + dt\<rparr>
          in if shootTimer e2 \<ge> 0.5 then
               (let e3 = e2\<lparr>shootTimer := 0\<rparr>;
                    (bullets1, g2) = bossVolley 3 e3 (bullets, g1)
                in ((e3, bullets1, g2, statics1), True))
             else ((e2, bullets, g1, statics1), False)
        else
          let e1 = e\<lparr>position := (position e)\<lparr>v_y := v_y (position e) + speed e * dt\<rparr>\<rparr>;
              e2 = e1\<lparr>shootTimer := shootTimer e1 + dt\<rparr>
          in if shootTimer e2 \<ge> shootInterval e2 then
               ((e2\<lparr>shootTimer := 0\<rparr>,
                 bullets @ [mkBullet \<lparr>v_x = v_x (position e2) + width e2 / 2,
                                      v_y = v_y (position e2) + height e2\<rparr> False 1],
                 g, statics), True)
             else ((e2, bullets, g, statics), False))"

subsection \<open>Upgrade\<close>

record Upgrade =
  fallSpeed :: real
  u_type :: UpgradeType
  u_position :: Vector2
  timer :: real
  active :: bool

definition Upgrade_Update :: "real \<Rightarrow> Upgrade \<Rightarrow> Upgrade" where
  "Upgrade_Update dt u =
     (if \<not> active u then u
      else u\<lparr>u_position := (u_position u)\<lparr>v_y := v_y (u_position u) + fallSpeed u * dt\<rparr>,
             timer := timer u - dt\<rparr>)"

definition Upgrade_Apply :: "Upgrade \<times> AudioSystem \<Rightarrow> Upgrade \<times> AudioSystem" where
  "Upgrade_Apply st =
     (case st of (u, audio) \<Rightarrow>
        if \<not> active u then (u, audio) else (u\<lparr>active := False\<rparr>, PlayUpgrade audio))"

definition IsActive :: "Upgrade \<Rightarrow> bool" where
  "IsActive u \<longleftrightarrow> active u \<and> timer u > 0"

definition Upgrade_GetHitbox :: "Upgrade \<Rightarrow> Rectangle" where
  "Upgrade_GetHitbox u =
     \<lparr>r_x = v_x (u_position u), r_y = v_y (u_position u), r_width = 30, r_height = 30\<rparr>"

text \<open>\<^verbatim>\<open>static_cast<UpgradeType>\<close> of a value that \<^verbatim>\<open>GetRandomValue(0, 2)\<close> returned.\<close>

definition toUpgradeType :: "int \<Rightarrow> UpgradeType" where
  "toUpgradeType n = (if n = 0 then HEALTH else if n = 1 then FIRE_RATE else ATTACK_RANGE)"

subsection \<open>Game\<close>

text \<open>
  The fields of \<^verbatim>\<open>class Game\<close>, followed by the process-wide state that its member
  functions reach: the library's random generator and the statics of \<^verbatim>\<open>Enemy::Update\<close>.
\<close>

record Game =
  player :: Player
  enemies :: "Enemy list"
  bullets :: "Bullet list"
  upgrades :: "Upgrade list"
  score :: int
  enemySpawnTimer :: real
  bossSpawnTimer :: real
  bossesDefeated :: int
  bossActive :: bool
  audio :: AudioSystem
  notifications :: "(string \<times> real) list"
  state :: GameState
  generator :: rng
  statics :: BossStatics

definition newGame :: "rng \<Rightarrow> Game" where
  "newGame g =
     \<lparr>player = newPlayer, enemies = [], bullets = [], upgrades = [], score = 0,
      enemySpawnTimer = 0, bossSpawnTimer = 0, bossesDefeated = 0, bossActive = False,
      audio = [], notifications = [], state = PLAYING, generator = g, statics = initStatics\<rparr>"

definition ResetGame :: "Game \<Rightarrow> Game" where
  "ResetGame s =
     s\<lparr>enemies := [], bullets := [], upgrades := [], notifications := [],
       score := 0, enemySpawnTimer := 0, bossSpawnTimer := 0,
       bossesDefeated := 0, bossActive := False,
       player := Reset (player s),
       audio := PlayMusic (StopMusic (audio s))\<rparr>"

text \<open>The body of the loop \<^verbatim>\<open>for (int i = 0; i < enemyCount; i++)\<close>, counted down.\<close>

fun spawnLoop :: "nat \<Rightarrow> Game \<Rightarrow> Game" where
  "spawnLoop 0 s = s"
| "spawnLoop (Suc n) s =
     (let t = (if bossesDefeated s = 0 then SIMPLE
               else if bossesDefeated s = 1 then MID else HARD)
      in case GetRandomValue 0 (GetScreenWidth - 40) (generator s) of (rx, g) \<Rightarrow>
           spawnLoop n
             (s\<lparr>generator := g,
                enemies := enemies s @ [newEnemy \<lparr>v_x = real_of_int rx, v_y = - 40\<rparr> t]\<rparr>))"

definition SpawnEnemies :: "real \<Rightarrow> Game \<Rightarrow> Game" where
  "SpawnEnemies dt s =
     (let s1 = s\<lparr>enemySpawnTimer := enemySpawnTimer s + dt\<rparr>
      in if enemySpawnTimer s1 \<ge> 2 then
           (case GetRandomValue 1 4 (generator s1) of (enemyCount, g) \<Rightarrow>
              spawnLoop (nat enemyCount) (s1\<lparr>enemySpawnTimer := 0, generator := g\<rparr>))
         else s1)"

definition SpawnBoss :: "real \<Rightarrow> Game \<Rightarrow> Game" where
  "SpawnBoss dt s =
     (if bossActive s then s
      else
        let s1 = s\<lparr>bossSpawnTimer := bossSpawnTimer s + dt\<rparr>
        in if bossSpawnTimer s1 \<ge> 60 then
             s1\<lparr>bossSpawnTimer := 0,
                bossActive := True,
                enemies := enemies s1 @
                  [newEnemy \<lparr>v_x = real_of_int GetScreenWidth / 2 - 60, v_y = - 120\<rparr> BOSS],
                notifications := notifications s1 @ [(''BOSS INCOMING!'', 2)]\<rparr>
           else s1)"

definition UpdateBullets :: "real \<Rightarrow> Game \<Rightarrow> Game" where
  "UpdateBullets dt s =
     s\<lparr>bullets := filter (\<lambda>b. \<not> IsOutOfScreen b) (map (Bullet_Update dt) (bullets s))\<rparr>"

definition SpawnUpgrade :: "Vector2 \<Rightarrow> bool \<Rightarrow> Game \<Rightarrow> Game" where
  "SpawnUpgrade pos isBossDrop s =
     (case GetRandomValue 0 2 (generator s) of (r, g) \<Rightarrow>
        s\<lparr>generator := g,
          upgrades := upgrades s @
            [\<lparr>fallSpeed = 100, u_type = toUpgradeType r, u_position = pos,
              timer = 5, active = True\<rparr>]\<rparr>)"

text \<open>The first loop of \<^verbatim>\<open>UpdateEnemies\<close>: every enemy is updated in place, in order.\<close>

fun updateLoop ::
  "real \<Rightarrow> Enemy list \<Rightarrow> Bullet list \<times> rng \<times> BossStatics
     \<Rightarrow> Enemy list \<times> Bullet list \<times> rng \<times> BossStatics"
where
  "updateLoop dt [] (bs, g, st) = ([], bs, g, st)"
| "updateLoop dt (e # es) (bs, g, st) =
     (case Enemy_Update dt (e, bs, g, st) of ((e', bs', g', st'), fired) \<Rightarrow>
        case updateLoop dt es (bs', g', st') of (es', rest) \<Rightarrow> (e' # es', rest))"

text \<open>
  The drop check of the reaping loop: \<^verbatim>\<open>GetRandomValue(0, 100) < 20\<close>, on the value drawn.
\<close>

definition dropCheck :: "int \<Rightarrow> bool" where
  "dropCheck r \<longleftrightarrow> r < 20"

text \<open>
  What the reaping loop does for one dead enemy before it erases it: the boss bookkeeping
  or the drop check, then the score.
\<close>

definition reapEffects :: "Enemy \<Rightarrow> Game \<Rightarrow> Game" where
  "reapEffects e s =
     (let dropPos = GetPosition e;
          s1 = (if type e = BOSS then
                  let sa = s\<lparr>bossesDefeated := bossesDefeated s + 1, bossActive := False\<rparr>;
                      sb = SpawnUpgrade dropPos True sa
                  in sb\<lparr>notifications := notifications sb @ [(''BOSS DEFEATED!'', 2)]\<rparr>
                else
                  case GetRandomValue 0 100 (generator s) of (r, g) \<Rightarrow>
                    if dropCheck r then SpawnUpgrade dropPos False (s\<lparr>generator := g\<rparr>)
                    else s\<lparr>generator := g\<rparr>)
      in s1\<lparr>score := score s1 + scoreValue e\<rparr>)"

text \<open>
  The second loop of \<^verbatim>\<open>UpdateEnemies\<close>: it walks the enemies that are left to visit and
  returns those it keeps, with the game as the visited ones changed it.
\<close>

fun reapLoop :: "Enemy list \<Rightarrow> Game \<Rightarrow> Enemy list \<times> Game" where
  "reapLoop [] s = ([], s)"
| "reapLoop (e # es) s =
     (if IsDead e then reapLoop es (reapEffects e s)
      else case reapLoop es s of (kept, s') \<Rightarrow> (e # kept, s'))"

definition UpdateEnemies :: "real \<Rightarrow> Game \<Rightarrow> Game" where
  "UpdateEnemies dt s =
     (case updateLoop dt (enemies s) (bullets s, generator s, statics s) of
        (es, bs, g, st) \<Rightarrow>
          case reapLoop es (s\<lparr>enemies := es, bullets := bs, generator := g, statics := st\<rparr>) of
            (kept, s') \<Rightarrow> s'\<lparr>enemies := kept\<rparr>)"

definition UpdateUpgrades :: "real \<Rightarrow> Game \<Rightarrow> Game" where
  "UpdateUpgrades dt s =
     s\<lparr>upgrades := filter IsActive (map (Upgrade_Update dt) (upgrades s))\<rparr>"

fun notifyLoop :: "real \<Rightarrow> (string \<times> real) list \<Rightarrow> (string \<times> real) list" where
  "notifyLoop dt [] = []"
| "notifyLoop dt ((msg, left) # ns) =
     (if left - dt \<le> 0 then notifyLoop dt ns else (msg, left - dt) # notifyLoop dt ns)"

definition UpdateNotifications :: "real \<Rightarrow> Game \<Rightarrow> Game" where
  "UpdateNotifications dt s = s\<lparr>notifications := notifyLoop dt (notifications s)\<rparr>"

subsection \<open>Collision resolution\<close>

text \<open>
  Pass (a), inner loop: the enemies are tried in order; the first one whose hitbox the
  bullet overlaps takes the damage and the loop breaks.
\<close>

fun hitLoop :: "Bullet \<Rightarrow> Enemy list \<Rightarrow> Enemy list \<times> bool" where
  "hitLoop b [] = ([], False)"
| "hitLoop b (e # es) =
     (if CheckCollisionCircleRec (b_position b) 5 (GetHitbox e)
      then (TakeDamage (damage b) e # es, True)
      else case hitLoop b es of (es', bulletHit) \<Rightarrow> (e # es', bulletHit))"

text \<open>Pass (a), outer loop, over the bullets that are left to visit.\<close>

fun bulletsVsEnemies ::
  "Bullet list \<Rightarrow> Enemy list \<times> AudioSystem \<Rightarrow> Bullet list \<times> Enemy list \<times> AudioSystem"
where
  "bulletsVsEnemies [] (es, a) = ([], es, a)"
| "bulletsVsEnemies (b # bs) (es, a) =
     (if \<not> isPlayerBullet b then
        case bulletsVsEnemies bs (es, a) of (bs', rest) \<Rightarrow> (b # bs', rest)
      else
        case hitLoop b es of (es', bulletHit) \<Rightarrow>
          if bulletHit then bulletsVsEnemies bs (es', PlayExplosion a)
          else case bulletsVsEnemies bs (es', a) of (bs', rest) \<Rightarrow> (b # bs', rest))"

text \<open>Pass (b): every enemy that overlaps the player damages it.\<close>

fun enemiesVsPlayer :: "Enemy list \<Rightarrow> Player \<times> AudioSystem \<Rightarrow> Player \<times> AudioSystem" where
  "enemiesVsPlayer [] (p, a) = (p, a)"
| "enemiesVsPlayer (e # es) (p, a) =
     (if CheckCollisionRecs (GetHitbox p) (GetHitbox e)
      then enemiesVsPlayer es (TakeDamage (if type e = BOSS then 2 else 1) p, PlayExplosion a)
      else enemiesVsPlayer es (p, a))"

text \<open>Pass (c): enemy bullets against the player.\<close>

fun bulletsVsPlayer ::
  "Bullet list \<Rightarrow> Player \<times> AudioSystem \<Rightarrow> Bullet list \<times> Player \<times> AudioSystem"
where
  "bulletsVsPlayer [] (p, a) = ([], p, a)"
| "bulletsVsPlayer (b # bs) (p, a) =
     (if isPlayerBullet b then
        case bulletsVsPlayer bs (p, a) of (bs', rest) \<Rightarrow> (b # bs', rest)
      else if CheckCollisionCircleRec (b_position b) 5 (GetHitbox p)
      then bulletsVsPlayer bs (TakeDamage (damage b) p, PlayExplosion a)
      else case bulletsVsPlayer bs (p, a) of (bs', rest) \<Rightarrow> (b # bs', rest))"

text \<open>Pass (d): upgrades against the player.\<close>

fun upgradesVsPlayer ::
  "Upgrade list \<Rightarrow> Player \<times> (string \<times> real) list \<times> AudioSystem
     \<Rightarrow> Upgrade list \<times> Player \<times> (string \<times> real) list \<times> AudioSystem"
where
  "upgradesVsPlayer [] (p, ns, a) = ([], p, ns, a)"
| "upgradesVsPlayer (u # us) (p, ns, a) =
     (if IsActive u \<and> CheckCollisionRecs (GetHitbox p) (Upgrade_GetHitbox u) then
        let (p1, ns1) =
              (case u_type u of
                 HEALTH \<Rightarrow> (IncreaseMaxHealth p, ns @ [(''MAX HEALTH +1'', 2)])
               | FIRE_RATE \<Rightarrow> (UpgradeFireRate p, ns @ [(''FIRE RATE UP!'', 2)])
               | ATTACK_RANGE \<Rightarrow> (UpgradeAttackRange p, ns @ [(''ATTACK RANGE +'', 2)]));
            (u1, a1) = Upgrade_Apply (u, a)
        in upgradesVsPlayer us (p1, ns1, a1)
      else
        case upgradesVsPlayer us (p, ns, a) of (us', rest) \<Rightarrow> (u # us', rest))"

definition CheckCollisions :: "Game \<Rightarrow> Game" where
  "CheckCollisions s =
     (case bulletsVsEnemies (bullets s) (enemies s, audio s) of (bs1, es1, a1) \<Rightarrow>
      case enemiesVsPlayer es1 (player s, a1) of (p2, a2) \<Rightarrow>
      case bulletsVsPlayer bs1 (p2, a2) of (bs3, p3, a3) \<Rightarrow>
      case upgradesVsPlayer (upgrades s) (p3, notifications s, a3) of (us4, p4, ns4, a4) \<Rightarrow>
        s\<lparr>bullets := bs3, enemies := es1, player := p4, upgrades := us4,
          notifications := ns4, audio := a4\<rparr>)"

subsection \<open>The frame\<close>

text \<open>
  \<^verbatim>\<open>stepPlayer\<close> is the first two statements of \<^verbatim>\<open>UpdateGame\<close>: the audio housekeeping
  and the player's update. \<^verbatim>\<open>simulate\<close> is what follows the death check.
\<close>

definition stepPlayer :: "Keys \<Rightarrow> real \<Rightarrow> Game \<Rightarrow> Game" where
  "stepPlayer keys dt s =
     (case Player_Update keys dt (player s, bullets s, AudioUpdate (audio s)) of
        ((p, bs, a), fired) \<Rightarrow> s\<lparr>player := p, bullets := bs, audio := a\<rparr>)"

definition simulate :: "real \<Rightarrow> Game \<Rightarrow> Game" where
  "simulate dt s =
     CheckCollisions
       (UpdateNotifications dt
         (UpdateUpgrades dt
           (UpdateEnemies dt
             (UpdateBullets dt
               (SpawnBoss dt
                 (SpawnEnemies dt s))))))"

definition UpdateGame :: "Keys \<Rightarrow> real \<Rightarrow> Game \<Rightarrow> Game" where
  "UpdateGame keys dt s =
     (let s1 = stepPlayer keys dt s
      in if IsDead (player s1) then s1\<lparr>state := GAME_OVER\<rparr>
         else simulate dt s1)"

text \<open>One iteration of the loop of \<^verbatim>\<open>Game::Run\<close>, without the rendering.\<close>

definition RunFrame :: "Keys \<Rightarrow> real \<Rightarrow> Game \<Rightarrow> Game" where
  "RunFrame keys dt s =
     (if state s = PLAYING then UpdateGame keys dt s
      else if state s = GAME_OVER then
        (if keyEnter keys then (ResetGame s)\<lparr>state := PLAYING\<rparr> else s)
      else s)"

text \<open>
  The states the process can be in: \<^verbatim>\<open>Run\<close> starts the music on the freshly constructed
  game, whatever the generator's seed, and then iterates the frame with whatever keys and
  frame time the platform reports.
\<close>

definition startGame :: "rng \<Rightarrow> Game" where
  "startGame g = (newGame g)\<lparr>audio := PlayMusic (audio (newGame g))\<rparr>"

inductive reachable :: "Game \<Rightarrow> bool" where
  start: "reachable (startGame g)"
| frame: "reachable s \<Longrightarrow> reachable (RunFrame keys dt s)"

subsection \<open>Notions used to state the properties\<close>

text \<open>How many bosses a list of enemies holds.\<close>

definition bossCount :: "Enemy list \<Rightarrow> nat" where
  "bossCount es = length (filter (\<lambda>e. type e = BOSS) es)"

text \<open>
  The enemies that \<^verbatim>\<open>UpdateEnemies\<close> finds dead after its first loop, which are those its
  second loop erases.
\<close>

definition reapedEnemies :: "real \<Rightarrow> Game \<Rightarrow> Enemy list" where
  "reapedEnemies dt s =
     filter IsDead (fst (updateLoop dt (enemies s) (bullets s, generator s, statics s)))"

text \<open>The game on which \<^verbatim>\<open>UpdateGame\<close> calls \<^verbatim>\<open>UpdateEnemies\<close>, when the player lives.\<close>

definition beforeEnemies :: "Keys \<Rightarrow> real \<Rightarrow> Game \<Rightarrow> Game" where
  "beforeEnemies keys dt s =
     UpdateBullets dt (SpawnBoss dt (SpawnEnemies dt (stepPlayer keys dt s)))"

text \<open>The overlap test of pass (a), and the position of the first enemy that passes it.\<close>

definition overlaps :: "Bullet \<Rightarrow> Enemy \<Rightarrow> bool" where
  "overlaps b e \<longleftrightarrow> CheckCollisionCircleRec (b_position b) 5 (GetHitbox e)"

fun firstOverlap :: "Bullet \<Rightarrow> Enemy list \<Rightarrow> nat option" where
  "firstOverlap b [] = None"
| "firstOverlap b (e # es) =
     (if overlaps b e then Some 0 else map_option Suc (firstOverlap b es))"

text \<open>The damage that the player bullets of \<open>bs\<close> deal to the enemy at position \<open>i\<close>.\<close>

definition damageFrom :: "Bullet list \<Rightarrow> Enemy list \<Rightarrow> nat \<Rightarrow> int" where
  "damageFrom bs es i =
     sum_list (map damage (filter (\<lambda>b. isPlayerBullet b \<and> firstOverlap b es = Some i) bs))"

text \<open>
  What holds of every state the process reaches: the player's health is within its maximum,
  no bullet heals, no enemy costs score, and a boss is in the list exactly while
  \<open>bossActive\<close> is set.
\<close>

definition wellFormed :: "Game \<Rightarrow> bool" where
  "wellFormed s \<longleftrightarrow>
     health (player s) \<le> maxHealth (player s) \<and>
     list_all (\<lambda>b. 0 \<le> damage b) (bullets s) \<and>
     list_all (\<lambda>e. 0 \<le> scoreValue e) (enemies s) \<and>
     bossCount (enemies s) = (if bossActive s then 1 else 0)"

subsection \<open>A sample play\<close>

text \<open>
  A run of twenty frames from a fixed seed, used to exercise the properties on states the
  process really reaches: a boss spawns and is shot down, its drop is picked up, the player
  dies under an enemy, and the game is restarted.
\<close>

definition noKeys :: Keys where
  "noKeys = \<lparr>keyLeft = False, keyRight = False, keyEnter = False\<rparr>"

definition sampleTape :: rng where
  "sampleTape =
     [0, 0, 0, 0, 10, 5, 0, 0, 0, 0, 0, 0, 0, 0, 0, 10, 0, 0, 0, 0,
      0, 0, 0, 0, 0, 0, 0, 0, 10, 0, 0, 0, 0, 0, 0, 0, 0]"

definition sampleInputs :: "(Keys \<times> real) list" where
  "sampleInputs =
     [(noKeys, 59.9), (noKeys, 0.1), (noKeys, 7.75),
      (noKeys, 0.5), (noKeys, 0.5), (noKeys, 0.5), (noKeys, 0.5),
      (noKeys, 0.5), (noKeys, 0.5), (noKeys, 0.5),
      (noKeys, 0.1), (noKeys, 2.4), (noKeys\<lparr>keyLeft := True\<rparr>, 0.15),
      (noKeys\<lparr>keyLeft := True\<rparr>, 1.2), (noKeys, 6),
      (noKeys, 0), (noKeys, 0), (noKeys, 0), (noKeys, 0),
      (noKeys\<lparr>keyEnter := True\<rparr>, 0)]"

fun runFrames :: "(Keys \<times> real) list \<Rightarrow> Game \<Rightarrow> Game" where
  "runFrames [] s = s"
| "runFrames ((keys, dt) # rest) s = runFrames rest (RunFrame keys dt s)"

definition play :: "nat \<Rightarrow> Game" where
  "play n = runFrames (take n sampleInputs) (startGame sampleTape)"

section \<open>Which fields each step leaves alone\<close>

lemma stepPlayer_frame:
  "enemies (stepPlayer keys dt s) = enemies s"
  "upgrades (stepPlayer keys dt s) = upgrades s"
  "notifications (stepPlayer keys dt s) = notifications s"
  "score (stepPlayer keys dt s) = score s"
  "enemySpawnTimer (stepPlayer keys dt s) = enemySpawnTimer s"
  "bossSpawnTimer (stepPlayer keys dt s) = bossSpawnTimer s"
  "bossesDefeated (stepPlayer keys dt s) = bossesDefeated s"
  "bossActive (stepPlayer keys dt s) = bossActive s"
  "state (stepPlayer keys dt s) = state s"
  "generator (stepPlayer keys dt s) = generator s"
  "statics (stepPlayer keys dt s) = statics s"
  by (simp_all add: stepPlayer_def Player_Update_def Let_def case_prod_beta)

lemma stepPlayer_player:
  "health (player (stepPlayer keys dt s)) = health (player s)"
  "maxHealth (player (stepPlayer keys dt s)) = maxHealth (player s)"
  "fireRate (player (stepPlayer keys dt s)) = fireRate (player s)"
  "attackRange (player (stepPlayer keys dt s)) = attackRange (player s)"
  by (simp_all add: stepPlayer_def Player_Update_def Let_def case_prod_beta)

lemma spawnLoop_frame:
  "player (spawnLoop n s) = player s"
  "bullets (spawnLoop n s) = bullets s"
  "upgrades (spawnLoop n s) = upgrades s"
  "score (spawnLoop n s) = score s"
  "enemySpawnTimer (spawnLoop n s) = enemySpawnTimer s"
  "bossSpawnTimer (spawnLoop n s) = bossSpawnTimer s"
  "bossesDefeated (spawnLoop n s) = bossesDefeated s"
  "bossActive (spawnLoop n s) = bossActive s"
  "audio (spawnLoop n s) = audio s"
  "notifications (spawnLoop n s) = notifications s"
  "state (spawnLoop n s) = state s"
  "statics (spawnLoop n s) = statics s"
  by (induction n arbitrary: s) (simp_all add: Let_def case_prod_beta)

lemma SpawnEnemies_frame:
  "player (SpawnEnemies dt s) = player s"
  "bullets (SpawnEnemies dt s) = bullets s"
  "upgrades (SpawnEnemies dt s) = upgrades s"
  "score (SpawnEnemies dt s) = score s"
  "bossSpawnTimer (SpawnEnemies dt s) = bossSpawnTimer s"
  "bossesDefeated (SpawnEnemies dt s) = bossesDefeated s"
  "bossActive (SpawnEnemies dt s) = bossActive s"
  "audio (SpawnEnemies dt s) = audio s"
  "notifications (SpawnEnemies dt s) = notifications s"
  "state (SpawnEnemies dt s) = state s"
  "statics (SpawnEnemies dt s) = statics s"
  by (simp_all add: SpawnEnemies_def Let_def spawnLoop_frame split: prod.split)

lemma SpawnEnemies_timer:
  "enemySpawnTimer (SpawnEnemies dt s) =
     (if enemySpawnTimer s + dt \<ge> 2 then 0 else enemySpawnTimer s + dt)"
  by (simp add: SpawnEnemies_def Let_def spawnLoop_frame split: prod.split)

lemma SpawnBoss_frame:
  "player (SpawnBoss dt s) = player s"
  "bullets (SpawnBoss dt s) = bullets s"
  "upgrades (SpawnBoss dt s) = upgrades s"
  "score (SpawnBoss dt s) = score s"
  "enemySpawnTimer (SpawnBoss dt s) = enemySpawnTimer s"
  "bossesDefeated (SpawnBoss dt s) = bossesDefeated s"
  "audio (SpawnBoss dt s) = audio s"
  "state (SpawnBoss dt s) = state s"
  "generator (SpawnBoss dt s) = generator s"
  "statics (SpawnBoss dt s) = statics s"
  by (simp_all add: SpawnBoss_def Let_def)

lemma UpdateBullets_frame:
  "player (UpdateBullets dt s) = player s"
  "enemies (UpdateBullets dt s) = enemies s"
  "upgrades (UpdateBullets dt s) = upgrades s"
  "score (UpdateBullets dt s) = score s"
  "enemySpawnTimer (UpdateBullets dt s) = enemySpawnTimer s"
  "bossSpawnTimer (UpdateBullets dt s) = bossSpawnTimer s"
  "bossesDefeated (UpdateBullets dt s) = bossesDefeated s"
  "bossActive (UpdateBullets dt s) = bossActive s"
  "audio (UpdateBullets dt s) = audio s"
  "notifications (UpdateBullets dt s) = notifications s"
  "state (UpdateBullets dt s) = state s"
  "generator (UpdateBullets dt s) = generator s"
  "statics (UpdateBullets dt s) = statics s"
  by (simp_all add: UpdateBullets_def)

lemma SpawnUpgrade_frame:
  "player (SpawnUpgrade pos d s) = player s"
  "enemies (SpawnUpgrade pos d s) = enemies s"
  "bullets (SpawnUpgrade pos d s) = bullets s"
  "score (SpawnUpgrade pos d s) = score s"
  "enemySpawnTimer (SpawnUpgrade pos d s) = enemySpawnTimer s"
  "bossSpawnTimer (SpawnUpgrade pos d s) = bossSpawnTimer s"
  "bossesDefeated (SpawnUpgrade pos d s) = bossesDefeated s"
  "bossActive (SpawnUpgrade pos d s) = bossActive s"
  "audio (SpawnUpgrade pos d s) = audio s"
  "notifications (SpawnUpgrade pos d s) = notifications s"
  "state (SpawnUpgrade pos d s) = state s"
  "statics (SpawnUpgrade pos d s) = statics s"
  by (simp_all add: SpawnUpgrade_def split: prod.split)

lemma reapEffects_frame:
  "player (reapEffects e s) = player s"
  "enemies (reapEffects e s) = enemies s"
  "bullets (reapEffects e s) = bullets s"
  "enemySpawnTimer (reapEffects e s) = enemySpawnTimer s"
  "bossSpawnTimer (reapEffects e s) = bossSpawnTimer s"
  "audio (reapEffects e s) = audio s"
  "state (reapEffects e s) = state s"
  "statics (reapEffects e s) = statics s"
  by (simp_all add: reapEffects_def Let_def SpawnUpgrade_frame split: prod.split)

lemma reapLoop_frame:
  "player (snd (reapLoop es s)) = player s"
  "enemies (snd (reapLoop es s)) = enemies s"
  "bullets (snd (reapLoop es s)) = bullets s"
  "enemySpawnTimer (snd (reapLoop es s)) = enemySpawnTimer s"
  "bossSpawnTimer (snd (reapLoop es s)) = bossSpawnTimer s"
  "audio (snd (reapLoop es s)) = audio s"
  "state (snd (reapLoop es s)) = state s"
  "statics (snd (reapLoop es s)) = statics s"
  by (induction es arbitrary: s) (simp_all add: reapEffects_frame case_prod_beta)

lemma UpdateEnemies_frame:
  "player (UpdateEnemies dt s) = player s"
  "enemySpawnTimer (UpdateEnemies dt s) = enemySpawnTimer s"
  "bossSpawnTimer (UpdateEnemies dt s) = bossSpawnTimer s"
  "audio (UpdateEnemies dt s) = audio s"
  "state (UpdateEnemies dt s) = state s"
  by (simp_all add: UpdateEnemies_def case_prod_beta reapLoop_frame)


lemma UpdateUpgrades_frame:
  "player (UpdateUpgrades dt s) = player s"
  "enemies (UpdateUpgrades dt s) = enemies s"
  "bullets (UpdateUpgrades dt s) = bullets s"
  "score (UpdateUpgrades dt s) = score s"
  "enemySpawnTimer (UpdateUpgrades dt s) = enemySpawnTimer s"
  "bossSpawnTimer (UpdateUpgrades dt s) = bossSpawnTimer s"
  "bossesDefeated (UpdateUpgrades dt s) = bossesDefeated s"
  "bossActive (UpdateUpgrades dt s) = bossActive s"
  "audio (UpdateUpgrades dt s) = audio s"
  "notifications (UpdateUpgrades dt s) = notifications s"
  "state (UpdateUpgrades dt s) = state s"
  "generator (UpdateUpgrades dt s) = generator s"
  "statics (UpdateUpgrades dt s) = statics s"
  by (simp_all add: UpdateUpgrades_def)

lemma UpdateNotifications_frame:
  "player (UpdateNotifications dt s) = player s"
  "enemies (UpdateNotifications dt s) = enemies s"
  "bullets (UpdateNotifications dt s) = bullets s"
  "upgrades (UpdateNotifications dt s) = upgrades s"
  "score (UpdateNotifications dt s) = score s"
  "enemySpawnTimer (UpdateNotifications dt s) = enemySpawnTimer s"
  "bossSpawnTimer (UpdateNotifications dt s) = bossSpawnTimer s"
  "bossesDefeated (UpdateNotifications dt s) = bossesDefeated s"
  "bossActive (UpdateNotifications dt s) = bossActive s"
  "audio (UpdateNotifications dt s) = audio s"
  "state (UpdateNotifications dt s) = state s"
  "generator (UpdateNotifications dt s) = generator s"
  "statics (UpdateNotifications dt s) = statics s"
  by (simp_all add: UpdateNotifications_def)

lemma CheckCollisions_frame:
  "score (CheckCollisions s) = score s"
  "enemySpawnTimer (CheckCollisions s) = enemySpawnTimer s"
  "bossSpawnTimer (CheckCollisions s) = bossSpawnTimer s"
  "bossesDefeated (CheckCollisions s) = bossesDefeated s"
  "bossActive (CheckCollisions s) = bossActive s"
  "state (CheckCollisions s) = state s"
  "generator (CheckCollisions s) = generator s"
  "statics (CheckCollisions s) = statics s"
  by (simp_all add: CheckCollisions_def case_prod_beta)

section \<open>The enemy loops\<close>

lemma bossVolley_damage:
  "list_all (\<lambda>b. 0 \<le> damage b) (fst ctx) \<Longrightarrow>
   list_all (\<lambda>b. 0 \<le> damage b) (fst (bossVolley n e ctx))"
proof (induction n arbitrary: ctx)
  case 0
  then show ?case by (cases ctx) simp
next
  case (Suc n)
  then show ?case by (cases ctx) (simp add: case_prod_beta mkBullet_def)
qed

lemma Enemy_Update_enemy:
  "health (fst (fst (Enemy_Update dt (e, ctx)))) = health e"
  "type (fst (fst (Enemy_Update dt (e, ctx)))) = type e"
  "scoreValue (fst (fst (Enemy_Update dt (e, ctx)))) = scoreValue e"
  by (simp_all add: Enemy_Update_def Let_def case_prod_beta)

lemma Enemy_Update_damage:
  "list_all (\<lambda>b. 0 \<le> damage b) (fst ctx) \<Longrightarrow>
   list_all (\<lambda>b. 0 \<le> damage b) (fst (snd (fst (Enemy_Update dt (e, ctx)))))"
  by (simp add: Enemy_Update_def Let_def case_prod_beta mkBullet_def bossVolley_damage)

lemma updateLoop_Cons:
  "updateLoop dt (e # es) ctx =
     (fst (fst (Enemy_Update dt (e, ctx))) #
        fst (updateLoop dt es (snd (fst (Enemy_Update dt (e, ctx))))),
      snd (updateLoop dt es (snd (fst (Enemy_Update dt (e, ctx))))))"
  by (cases ctx) (simp add: case_prod_beta)

lemma updateLoop_Nil: "updateLoop dt [] ctx = ([], ctx)"
  by (cases ctx) simp

lemma updateLoop_enemies:
  "map health (fst (updateLoop dt es ctx)) = map health es"
  "map type (fst (updateLoop dt es ctx)) = map type es"
  "map scoreValue (fst (updateLoop dt es ctx)) = map scoreValue es"
  by (induction es arbitrary: ctx)
     (simp_all add: updateLoop_Nil updateLoop_Cons Enemy_Update_enemy)

lemma updateLoop_damage:
  "list_all (\<lambda>b. 0 \<le> damage b) (fst ctx) \<Longrightarrow>
   list_all (\<lambda>b. 0 \<le> damage b) (fst (snd (updateLoop dt es ctx)))"
  by (induction es arbitrary: ctx)
     (simp_all add: updateLoop_Nil updateLoop_Cons Enemy_Update_damage)

lemma map_health_IsDead:
  "map health es' = map health es \<Longrightarrow> map IsDead es' = map IsDead es"
  by (induction es arbitrary: es') (auto simp add: IsDead_def)

lemma reapLoop_kept: "fst (reapLoop es s) = filter (\<lambda>e. \<not> IsDead e) es"
  by (induction es arbitrary: s) (simp_all add: case_prod_beta)

lemma reapEffects_score: "score (reapEffects e s) = score s + scoreValue e"
  by (simp add: reapEffects_def Let_def case_prod_beta SpawnUpgrade_frame)

lemma reapEffects_boss:
  "bossActive (reapEffects e s) = (bossActive s \<and> type e \<noteq> BOSS)"
  "bossesDefeated (reapEffects e s) = bossesDefeated s + (if type e = BOSS then 1 else 0)"
  by (simp_all add: reapEffects_def Let_def case_prod_beta SpawnUpgrade_frame)

lemma reapLoop_score:
  "score (snd (reapLoop es s)) = score s + sum_list (map scoreValue (filter IsDead es))"
  by (induction es arbitrary: s) (simp_all add: case_prod_beta reapEffects_score)

lemma reapLoop_bossActive:
  "bossActive (snd (reapLoop es s)) = (bossActive s \<and> bossCount (filter IsDead es) = 0)"
  by (induction es arbitrary: s) (auto simp add: case_prod_beta reapEffects_boss bossCount_def)

lemma reapLoop_bossesDefeated:
  "bossesDefeated (snd (reapLoop es s)) = bossesDefeated s + int (bossCount (filter IsDead es))"
  by (induction es arbitrary: s) (simp_all add: case_prod_beta reapEffects_boss bossCount_def)


lemma UpdateEnemies_enemies:
  "enemies (UpdateEnemies dt s) =
     filter (\<lambda>e. \<not> IsDead e) (fst (updateLoop dt (enemies s) (bullets s, generator s, statics s)))"
  by (simp add: UpdateEnemies_def case_prod_beta reapLoop_kept)

lemma UpdateEnemies_score:
  "score (UpdateEnemies dt s) = score s + sum_list (map scoreValue (reapedEnemies dt s))"
  by (simp add: UpdateEnemies_def case_prod_beta reapLoop_score reapedEnemies_def)

lemma UpdateEnemies_bossActive:
  "bossActive (UpdateEnemies dt s) = (bossActive s \<and> bossCount (reapedEnemies dt s) = 0)"
  by (simp add: UpdateEnemies_def case_prod_beta reapLoop_bossActive reapedEnemies_def)

lemma UpdateEnemies_bossesDefeated:
  "bossesDefeated (UpdateEnemies dt s) = bossesDefeated s + int (bossCount (reapedEnemies dt s))"
  by (simp add: UpdateEnemies_def case_prod_beta reapLoop_bossesDefeated reapedEnemies_def)

lemma UpdateEnemies_bullets:
  "list_all (\<lambda>b. 0 \<le> damage b) (bullets s) \<Longrightarrow>
   list_all (\<lambda>b. 0 \<le> damage b) (bullets (UpdateEnemies dt s))"
  using updateLoop_damage [of "(bullets s, generator s, statics s)" dt "enemies s"]
  by (simp add: UpdateEnemies_def case_prod_beta reapLoop_frame)

section \<open>The collision passes\<close>

lemma TakeDamage_simps:
  "health (TakeDamage n obj) = health obj - n"
  "GetHitbox (TakeDamage n obj) = GetHitbox obj"
  by (simp_all add: TakeDamage_def GetHitbox_def)

lemma TakeDamage_enemy:
  "type (TakeDamage n e) = type e"
  "scoreValue (TakeDamage n e) = scoreValue e"
  by (simp_all add: TakeDamage_def)

lemma TakeDamage_player:
  "maxHealth (TakeDamage n p) = maxHealth p"
  "fireCooldown (TakeDamage n p) = fireCooldown p"
  "fireRate (TakeDamage n p) = fireRate p"
  "attackRange (TakeDamage n p) = attackRange p"
  by (simp_all add: TakeDamage_def)

lemma hitLoop_enemies:
  "map type (fst (hitLoop b es)) = map type es"
  "map scoreValue (fst (hitLoop b es)) = map scoreValue es"
  "map GetHitbox (fst (hitLoop b es)) = map GetHitbox es"
  by (induction es) (simp_all add: case_prod_beta TakeDamage_enemy TakeDamage_simps)

lemma bulletsVsEnemies_Cons:
  "bulletsVsEnemies (b # bs) ctx =
     (if \<not> isPlayerBullet b then
        (b # fst (bulletsVsEnemies bs ctx), snd (bulletsVsEnemies bs ctx))
      else if snd (hitLoop b (fst ctx)) then
        bulletsVsEnemies bs (fst (hitLoop b (fst ctx)), PlayExplosion (snd ctx))
      else
        (b # fst (bulletsVsEnemies bs (fst (hitLoop b (fst ctx)), snd ctx)),
         snd (bulletsVsEnemies bs (fst (hitLoop b (fst ctx)), snd ctx))))"
  by (cases ctx) (simp add: case_prod_beta)

lemma bulletsVsEnemies_Nil: "bulletsVsEnemies [] ctx = ([], ctx)"
  by (cases ctx) simp

lemma bulletsVsEnemies_enemies:
  "map type (fst (snd (bulletsVsEnemies bs ctx))) = map type (fst ctx)"
  "map scoreValue (fst (snd (bulletsVsEnemies bs ctx))) = map scoreValue (fst ctx)"
  "map GetHitbox (fst (snd (bulletsVsEnemies bs ctx))) = map GetHitbox (fst ctx)"
  by (induction bs arbitrary: ctx)
     (simp_all add: bulletsVsEnemies_Nil bulletsVsEnemies_Cons hitLoop_enemies)

lemma bulletsVsEnemies_bullets:
  "list_all P bs \<Longrightarrow> list_all P (fst (bulletsVsEnemies bs ctx))"
  by (induction bs arbitrary: ctx)
     (simp_all add: bulletsVsEnemies_Nil bulletsVsEnemies_Cons)


lemma enemiesVsPlayer_player:
  "maxHealth (fst (enemiesVsPlayer es (p, a))) = maxHealth p"
  "fireCooldown (fst (enemiesVsPlayer es (p, a))) = fireCooldown p"
  "health (fst (enemiesVsPlayer es (p, a))) \<le> health p"
proof (induction es arbitrary: p a)
  case Nil
  { case 1 show ?case by simp
  next case 2 show ?case by simp
  next case 3 show ?case by simp }
next
  case (Cons e es)
  { case 1 show ?case by (simp add: Cons.IH(1) TakeDamage_player)
  next case 2 show ?case by (simp add: Cons.IH(2) TakeDamage_player)
  next
    case 3
    have "health (fst (enemiesVsPlayer es (TakeDamage (if type e = BOSS then 2 else 1) p, PlayExplosion a)))
            \<le> health (TakeDamage (if type e = BOSS then 2 else 1) p)"
      by (rule Cons.IH(3))
    also have "\<dots> \<le> health p" by (simp add: TakeDamage_simps)
    finally show ?case using Cons.IH(3) [of p a] by simp
  }
qed

lemma bulletsVsPlayer_player:
  "maxHealth (fst (snd (bulletsVsPlayer bs (p, a)))) = maxHealth p"
  "fireCooldown (fst (snd (bulletsVsPlayer bs (p, a)))) = fireCooldown p"
  by (induction bs arbitrary: p a) (simp_all add: case_prod_beta TakeDamage_player)

lemma bulletsVsPlayer_health:
  "list_all (\<lambda>b. 0 \<le> damage b) bs \<Longrightarrow>
   health (fst (snd (bulletsVsPlayer bs (p, a)))) \<le> health p"
proof (induction bs arbitrary: p a)
  case Nil
  then show ?case by simp
next
  case (Cons b bs)
  then have d: "0 \<le> damage b" and rest: "list_all (\<lambda>b. 0 \<le> damage b) bs" by simp_all
  have "health (fst (snd (bulletsVsPlayer bs (TakeDamage (damage b) p, PlayExplosion a))))
          \<le> health (TakeDamage (damage b) p)"
    using rest by (rule Cons.IH)
  also have "\<dots> \<le> health p" using d by (simp add: TakeDamage_simps)
  finally show ?case using Cons.IH [OF rest, of p a] by (simp add: case_prod_beta)
qed

lemma bulletsVsPlayer_bullets:
  "list_all P bs \<Longrightarrow> list_all P (fst (bulletsVsPlayer bs (p, a)))"
  by (induction bs arbitrary: p a) (simp_all add: case_prod_beta)

lemma upgrade_player:
  "health (IncreaseMaxHealth p) = health p + 1"
  "maxHealth (IncreaseMaxHealth p) = maxHealth p + 1"
  "fireCooldown (IncreaseMaxHealth p) = fireCooldown p"
  "health (UpgradeFireRate p) = health p"
  "maxHealth (UpgradeFireRate p) = maxHealth p"
  "fireCooldown (UpgradeFireRate p) = fireCooldown p"
  "health (UpgradeAttackRange p) = health p"
  "maxHealth (UpgradeAttackRange p) = maxHealth p"
  "fireCooldown (UpgradeAttackRange p) = fireCooldown p"
  by (simp_all add: IncreaseMaxHealth_def UpgradeFireRate_def UpgradeAttackRange_def)

lemma upgradesVsPlayer_health:
  "health p \<le> maxHealth p \<Longrightarrow>
   health (fst (snd (upgradesVsPlayer us (p, ns, a))))
     \<le> maxHealth (fst (snd (upgradesVsPlayer us (p, ns, a))))"
  by (induction us arbitrary: p ns a)
     (simp_all add: case_prod_beta Let_def upgrade_player split: UpgradeType.split)

lemma upgradesVsPlayer_cooldown:
  "fireCooldown (fst (snd (upgradesVsPlayer us (p, ns, a)))) = fireCooldown p"
  by (induction us arbitrary: p ns a)
     (simp_all add: case_prod_beta Let_def upgrade_player split: UpgradeType.split)

lemma enemiesVsPlayer_ctx:
  "maxHealth (fst (enemiesVsPlayer es ctx)) = maxHealth (fst ctx)"
  "fireCooldown (fst (enemiesVsPlayer es ctx)) = fireCooldown (fst ctx)"
  "health (fst (enemiesVsPlayer es ctx)) \<le> health (fst ctx)"
  by (cases ctx; simp add: enemiesVsPlayer_player)+

lemma bulletsVsPlayer_ctx:
  "maxHealth (fst (snd (bulletsVsPlayer bs ctx))) = maxHealth (fst ctx)"
  "fireCooldown (fst (snd (bulletsVsPlayer bs ctx))) = fireCooldown (fst ctx)"
  "list_all (\<lambda>b. 0 \<le> damage b) bs \<Longrightarrow>
     health (fst (snd (bulletsVsPlayer bs ctx))) \<le> health (fst ctx)"
  "list_all P bs \<Longrightarrow> list_all P (fst (bulletsVsPlayer bs ctx))"
  by (cases ctx; simp add: bulletsVsPlayer_player bulletsVsPlayer_health bulletsVsPlayer_bullets)+

lemma upgradesVsPlayer_ctx:
  "health (fst ctx) \<le> maxHealth (fst ctx) \<Longrightarrow>
   health (fst (snd (upgradesVsPlayer us ctx)))
     \<le> maxHealth (fst (snd (upgradesVsPlayer us ctx)))"
  "fireCooldown (fst (snd (upgradesVsPlayer us ctx))) = fireCooldown (fst ctx)"
  by (cases ctx; simp add: upgradesVsPlayer_health upgradesVsPlayer_cooldown)+

lemma CheckCollisions_cooldown:
  "fireCooldown (player (CheckCollisions s)) = fireCooldown (player s)"
  by (simp add: CheckCollisions_def case_prod_beta upgradesVsPlayer_ctx
      bulletsVsPlayer_ctx enemiesVsPlayer_ctx)

lemma CheckCollisions_enemies:
  "enemies (CheckCollisions s) = fst (snd (bulletsVsEnemies (bullets s) (enemies s, audio s)))"
  by (simp add: CheckCollisions_def case_prod_beta)

lemma CheckCollisions_health:
  assumes "health (player s) \<le> maxHealth (player s)"
    and "list_all (\<lambda>b. 0 \<le> damage b) (bullets s)"
  shows "health (player (CheckCollisions s)) \<le> maxHealth (player (CheckCollisions s))"
proof -
  let ?r1 = "bulletsVsEnemies (bullets s) (enemies s, audio s)"
  let ?r2 = "enemiesVsPlayer (fst (snd ?r1)) (player s, snd (snd ?r1))"
  let ?r3 = "bulletsVsPlayer (fst ?r1) ?r2"
  have b1: "list_all (\<lambda>b. 0 \<le> damage b) (fst ?r1)"
    using assms(2) by (rule bulletsVsEnemies_bullets)
  have "health (fst ?r2) \<le> health (player s)"
    using enemiesVsPlayer_ctx(3) [of "fst (snd ?r1)" "(player s, snd (snd ?r1))"] by simp
  moreover have "health (fst (snd ?r3)) \<le> health (fst ?r2)"
    using b1 by (rule bulletsVsPlayer_ctx(3))
  moreover have "maxHealth (fst (snd ?r3)) = maxHealth (player s)"
    by (simp add: bulletsVsPlayer_ctx enemiesVsPlayer_ctx)
  ultimately have "health (fst (snd ?r3)) \<le> maxHealth (fst (snd ?r3))"
    using assms(1) by simp
  then have "health (fst (snd (upgradesVsPlayer (upgrades s) (fst (snd ?r3), notifications s, snd (snd ?r3)))))
      \<le> maxHealth (fst (snd (upgradesVsPlayer (upgrades s) (fst (snd ?r3), notifications s, snd (snd ?r3)))))"
    by (rule upgradesVsPlayer_health)
  then show ?thesis
    by (simp add: CheckCollisions_def case_prod_beta)
qed

lemma CheckCollisions_bullets:
  "list_all (\<lambda>b. 0 \<le> damage b) (bullets s) \<Longrightarrow>
   list_all (\<lambda>b. 0 \<le> damage b) (bullets (CheckCollisions s))"
  by (simp add: CheckCollisions_def case_prod_beta bulletsVsPlayer_ctx bulletsVsEnemies_bullets)


section \<open>An invariant of the reachable states\<close>

lemma bossCount_map: "bossCount es = length (filter (\<lambda>t. t = BOSS) (map type es))"
  by (simp add: bossCount_def filter_map comp_def)

lemma scoreValue_map:
  "list_all (\<lambda>e. 0 \<le> scoreValue e) es = list_all (\<lambda>v. 0 \<le> v) (map scoreValue es)"
  by (simp add: list_all_iff)

lemma bossCount_split:
  "bossCount es = bossCount (filter IsDead es) + bossCount (filter (\<lambda>e. \<not> IsDead e) es)"
  by (induction es) (simp_all add: bossCount_def)

lemma newEnemy_fields:
  "type (newEnemy pos t) = t"
  "0 \<le> scoreValue (newEnemy pos t)"
  by (cases t; simp add: newEnemy_def)+

lemma spawnLoop_enemies:
  "list_all (\<lambda>e. 0 \<le> scoreValue e) (enemies s) \<Longrightarrow>
     list_all (\<lambda>e. 0 \<le> scoreValue e) (enemies (spawnLoop n s))"
  "bossCount (enemies (spawnLoop n s)) = bossCount (enemies s)"
  by (induction n arbitrary: s)
     (simp_all add: Let_def case_prod_beta newEnemy_fields bossCount_def)

lemma wellFormed_stepPlayer: "wellFormed s \<Longrightarrow> wellFormed (stepPlayer keys dt s)"
  unfolding wellFormed_def
  by (simp add: stepPlayer_frame stepPlayer_player)
     (simp add: stepPlayer_def Player_Update_def Let_def case_prod_beta mkBullet_def)

lemma wellFormed_SpawnEnemies: "wellFormed s \<Longrightarrow> wellFormed (SpawnEnemies dt s)"
  unfolding wellFormed_def
  by (simp add: SpawnEnemies_frame)
     (simp add: SpawnEnemies_def Let_def case_prod_beta spawnLoop_enemies)

lemma wellFormed_SpawnBoss: "wellFormed s \<Longrightarrow> wellFormed (SpawnBoss dt s)"
  by (auto simp add: wellFormed_def SpawnBoss_def Let_def newEnemy_fields bossCount_def)

lemma wellFormed_UpdateBullets: "wellFormed s \<Longrightarrow> wellFormed (UpdateBullets dt s)"
  by (auto simp add: wellFormed_def UpdateBullets_def Bullet_Update_def list_all_iff)

lemma wellFormed_UpdateEnemies:
  assumes "wellFormed s"
  shows "wellFormed (UpdateEnemies dt s)"
proof -
  let ?es = "fst (updateLoop dt (enemies s) (bullets s, generator s, statics s))"
  have sv: "list_all (\<lambda>e. 0 \<le> scoreValue e) ?es"
    using assms by (simp add: wellFormed_def scoreValue_map updateLoop_enemies)
  have bc: "bossCount ?es = (if bossActive s then 1 else 0)"
    using assms by (simp add: wellFormed_def bossCount_map updateLoop_enemies)
  have kept: "list_all (\<lambda>e. 0 \<le> scoreValue e) (enemies (UpdateEnemies dt s))"
    using sv by (simp add: UpdateEnemies_enemies list_all_iff)
  have boss: "bossCount (enemies (UpdateEnemies dt s)) =
      (if bossActive (UpdateEnemies dt s) then 1 else 0)"
    using bc bossCount_split [of ?es]
    by (simp add: UpdateEnemies_enemies UpdateEnemies_bossActive reapedEnemies_def
        split: if_splits)
  show ?thesis
    using assms kept boss
    by (simp add: wellFormed_def UpdateEnemies_frame UpdateEnemies_bullets)
qed

lemma wellFormed_UpdateUpgrades: "wellFormed s \<Longrightarrow> wellFormed (UpdateUpgrades dt s)"
  by (simp add: wellFormed_def UpdateUpgrades_frame)

lemma wellFormed_UpdateNotifications: "wellFormed s \<Longrightarrow> wellFormed (UpdateNotifications dt s)"
  by (simp add: wellFormed_def UpdateNotifications_frame)

lemma wellFormed_CheckCollisions:
  assumes "wellFormed s"
  shows "wellFormed (CheckCollisions s)"
proof -
  have "list_all (\<lambda>e. 0 \<le> scoreValue e) (enemies (CheckCollisions s))"
    using assms by (simp add: wellFormed_def CheckCollisions_enemies scoreValue_map
        bulletsVsEnemies_enemies)
  moreover have "bossCount (enemies (CheckCollisions s)) = (if bossActive s then 1 else 0)"
    using assms by (simp add: wellFormed_def CheckCollisions_enemies bossCount_map
        bulletsVsEnemies_enemies)
  ultimately show ?thesis
    using assms
    by (simp add: wellFormed_def CheckCollisions_health CheckCollisions_bullets
        CheckCollisions_frame)
qed

lemma wellFormed_simulate: "wellFormed s \<Longrightarrow> wellFormed (simulate dt s)"
  unfolding simulate_def
  by (intro wellFormed_CheckCollisions wellFormed_UpdateNotifications wellFormed_UpdateUpgrades
      wellFormed_UpdateEnemies wellFormed_UpdateBullets wellFormed_SpawnBoss
      wellFormed_SpawnEnemies)

lemma wellFormed_state_update: "wellFormed (s\<lparr>state := x\<rparr>) = wellFormed s"
  by (simp add: wellFormed_def)

lemma wellFormed_UpdateGame: "wellFormed s \<Longrightarrow> wellFormed (UpdateGame keys dt s)"
  by (simp add: UpdateGame_def Let_def wellFormed_state_update wellFormed_simulate
      wellFormed_stepPlayer)

lemma wellFormed_ResetGame: "wellFormed (ResetGame s)"
  by (simp add: wellFormed_def ResetGame_def Reset_def bossCount_def)

lemma wellFormed_RunFrame: "wellFormed s \<Longrightarrow> wellFormed (RunFrame keys dt s)"
  by (simp add: RunFrame_def wellFormed_UpdateGame wellFormed_state_update wellFormed_ResetGame)

lemma wellFormed_startGame: "wellFormed (startGame g)"
  by (simp add: wellFormed_def startGame_def newGame_def newPlayer_def bossCount_def)

lemma reachable_wellFormed: "reachable s \<Longrightarrow> wellFormed s"
  by (induction rule: reachable.induct) (simp_all add: wellFormed_startGame wellFormed_RunFrame)

section \<open>The player's statistics\<close>

lemma UpgradeFireRate_floor: "fireRate (UpgradeFireRate p) \<ge> 0.1"
  by (simp add: UpgradeFireRate_def)

lemma UpgradeFireRate_pow_floor:
  assumes "fireRate p \<ge> 0.1"
  shows "fireRate ((UpgradeFireRate ^^ n) p) \<ge> 0.1"
proof (cases n)
  case 0
  with assms show ?thesis by simp
next
  case (Suc m)
  have "fireRate (UpgradeFireRate ((UpgradeFireRate ^^ m) p)) \<ge> 0.1"
    by (rule UpgradeFireRate_floor)
  with Suc show ?thesis by simp
qed

section \<open>The frame as a whole\<close>

lemma beforeEnemies_frame:
  "score (beforeEnemies keys dt s) = score s"
  "bossesDefeated (beforeEnemies keys dt s) = bossesDefeated s"
  "bossActive s \<Longrightarrow> bossActive (beforeEnemies keys dt s)"
  by (simp_all add: beforeEnemies_def UpdateBullets_frame SpawnBoss_frame SpawnEnemies_frame
      stepPlayer_frame SpawnBoss_def Let_def)

lemma wellFormed_beforeEnemies: "wellFormed s \<Longrightarrow> wellFormed (beforeEnemies keys dt s)"
  unfolding beforeEnemies_def
  by (intro wellFormed_UpdateBullets wellFormed_SpawnBoss wellFormed_SpawnEnemies
      wellFormed_stepPlayer)

lemma simulate_after_enemies:
  "score (simulate dt s) = score (UpdateEnemies dt (UpdateBullets dt (SpawnBoss dt (SpawnEnemies dt s))))"
  "bossActive (simulate dt s) = bossActive (UpdateEnemies dt (UpdateBullets dt (SpawnBoss dt (SpawnEnemies dt s))))"
  "bossesDefeated (simulate dt s) = bossesDefeated (UpdateEnemies dt (UpdateBullets dt (SpawnBoss dt (SpawnEnemies dt s))))"
  by (simp_all add: simulate_def CheckCollisions_frame UpdateNotifications_frame
      UpdateUpgrades_frame)

lemma UpdateGame_cases:
  "IsDead (player (stepPlayer keys dt s)) \<Longrightarrow>
     UpdateGame keys dt s = (stepPlayer keys dt s)\<lparr>state := GAME_OVER\<rparr>"
  "\<not> IsDead (player (stepPlayer keys dt s)) \<Longrightarrow>
     UpdateGame keys dt s = simulate dt (stepPlayer keys dt s)"
  by (simp_all add: UpdateGame_def Let_def)

lemma UpdateGame_score:
  "score (UpdateGame keys dt s) =
     score s + (if IsDead (player (stepPlayer keys dt s)) then 0
                else sum_list (map scoreValue (reapedEnemies dt (beforeEnemies keys dt s))))"
proof (cases "IsDead (player (stepPlayer keys dt s))")
  case True
  then show ?thesis by (simp add: UpdateGame_cases stepPlayer_frame)
next
  case False
  have "score (UpdateGame keys dt s) = score (UpdateEnemies dt (beforeEnemies keys dt s))"
    using False by (simp add: UpdateGame_cases simulate_after_enemies beforeEnemies_def)
  with False show ?thesis by (simp add: UpdateEnemies_score beforeEnemies_frame)
qed

lemma reaped_scores_nonneg:
  assumes "wellFormed s"
  shows "0 \<le> sum_list (map scoreValue (reapedEnemies dt s))"
proof -
  have "list_all (\<lambda>e. 0 \<le> scoreValue e)
          (fst (updateLoop dt (enemies s) (bullets s, generator s, statics s)))"
    using assms by (simp add: wellFormed_def scoreValue_map updateLoop_enemies)
  then have "\<forall>v \<in> set (map scoreValue (reapedEnemies dt s)). 0 \<le> v"
    by (auto simp add: reapedEnemies_def list_all_iff)
  then show ?thesis by (intro sum_list_nonneg) auto
qed

lemma UpdateGame_bossActive:
  assumes "bossActive s"
  shows "bossActive (UpdateGame keys dt s) \<longleftrightarrow>
           IsDead (player (stepPlayer keys dt s)) \<or>
           bossCount (reapedEnemies dt (beforeEnemies keys dt s)) = 0"
proof (cases "IsDead (player (stepPlayer keys dt s))")
  case True
  with assms show ?thesis by (simp add: UpdateGame_cases stepPlayer_frame)
next
  case False
  have "bossActive (UpdateGame keys dt s) = bossActive (UpdateEnemies dt (beforeEnemies keys dt s))"
    using False by (simp add: UpdateGame_cases simulate_after_enemies beforeEnemies_def)
  with False assms show ?thesis
    by (simp add: UpdateEnemies_bossActive beforeEnemies_frame)
qed

lemma simulate_timers:
  "enemySpawnTimer (simulate dt s) =
     (if enemySpawnTimer s + dt \<ge> 2 then 0 else enemySpawnTimer s + dt)"
  "fireCooldown (player (simulate dt s)) = fireCooldown (player s)"
  "bossSpawnTimer (simulate dt s) = bossSpawnTimer (SpawnBoss dt (SpawnEnemies dt s))"
  by (simp_all add: simulate_def CheckCollisions_frame CheckCollisions_cooldown
      UpdateNotifications_frame UpdateUpgrades_frame UpdateEnemies_frame UpdateBullets_frame
      SpawnBoss_frame SpawnEnemies_frame SpawnEnemies_timer)

lemma stepPlayer_cooldown:
  "fireCooldown (player (stepPlayer keys dt s)) =
     (if fireCooldown (player s) - dt \<le> 0 then fireRate (player s)
      else fireCooldown (player s) - dt)"
  by (simp add: stepPlayer_def Player_Update_def Let_def)

lemma start_frame_spawn_timer:
  "enemySpawnTimer (UpdateGame keys dt (startGame g)) = (if 2 \<le> dt then 0 else dt)"
proof -
  have "\<not> IsDead (player (stepPlayer keys dt (startGame g)))"
    by (simp add: IsDead_def stepPlayer_player startGame_def newGame_def newPlayer_def)
  then have "UpdateGame keys dt (startGame g) = simulate dt (stepPlayer keys dt (startGame g))"
    by (rule UpdateGame_cases)
  then show ?thesis
    by (simp add: simulate_timers stepPlayer_frame startGame_def newGame_def)
qed

lemma start_frames_differ:
  "UpdateGame keys (- 1) (startGame g) \<noteq> UpdateGame keys 0 (startGame g)"
proof
  assume "UpdateGame keys (- 1) (startGame g) = UpdateGame keys 0 (startGame g)"
  then have "enemySpawnTimer (UpdateGame keys (- 1) (startGame g))
      = enemySpawnTimer (UpdateGame keys 0 (startGame g))"
    by simp
  then show False by (simp add: start_frame_spawn_timer)
qed

section \<open>Pass (a) in closed form\<close>

lemma hitLoop_firstOverlap:
  "hitLoop b es =
     (case firstOverlap b es of
        None \<Rightarrow> (es, False)
      | Some i \<Rightarrow> (es[i := TakeDamage (damage b) (es ! i)], True))"
  by (induction es) (simp_all add: overlaps_def case_prod_beta split: option.split)

lemma firstOverlap_Some:
  "firstOverlap b es = Some i \<longleftrightarrow>
     i < length es \<and> overlaps b (es ! i) \<and> (\<forall>j<i. \<not> overlaps b (es ! j))"
proof (induction es arbitrary: i)
  case Nil
  show ?case by simp
next
  case (Cons e es)
  show ?case
  proof (cases "overlaps b e")
    case True
    then show ?thesis by (cases i) auto
  next
    case False
    show ?thesis
    proof (cases i)
      case 0
      with False show ?thesis by simp
    next
      case (Suc k)
      have "(\<forall>j<Suc k. \<not> overlaps b ((e # es) ! j)) \<longleftrightarrow> (\<forall>j<k. \<not> overlaps b (es ! j))"
        using False by (auto simp add: less_Suc_eq_0_disj)
      with False Suc Cons.IH [of k] show ?thesis by auto
    qed
  qed
qed

lemma firstOverlap_None:
  "firstOverlap b es = None \<longleftrightarrow> list_all (\<lambda>e. \<not> overlaps b e) es"
  by (induction es) simp_all

lemma firstOverlap_boxes:
  "map GetHitbox es' = map GetHitbox es \<Longrightarrow> firstOverlap b es' = firstOverlap b es"
proof (induction es arbitrary: es')
  case Nil
  then show ?case by simp
next
  case (Cons e es)
  then obtain e' es1 where es': "es' = e' # es1" by (cases es') auto
  with Cons.prems have "GetHitbox e' = GetHitbox e" "map GetHitbox es1 = map GetHitbox es"
    by simp_all
  with Cons.IH [of es1] es' show ?case by (simp add: overlaps_def)
qed

lemma damageFrom_boxes:
  "map GetHitbox es' = map GetHitbox es \<Longrightarrow> damageFrom bs es' i = damageFrom bs es i"
proof -
  assume "map GetHitbox es' = map GetHitbox es"
  then have "firstOverlap b es' = firstOverlap b es" for b
    by (rule firstOverlap_boxes)
  then show ?thesis by (simp add: damageFrom_def)
qed

lemma damageFrom_Nil: "damageFrom [] es i = 0"
  by (simp add: damageFrom_def)

lemma damageFrom_Cons:
  "damageFrom (b # bs) es i =
     (if isPlayerBullet b \<and> firstOverlap b es = Some i then damage b else 0) + damageFrom bs es i"
  by (simp add: damageFrom_def)

lemma bulletsVsEnemies_kept:
  "map GetHitbox (fst ctx) = map GetHitbox es \<Longrightarrow>
   fst (bulletsVsEnemies bs ctx) =
     filter (\<lambda>b. \<not> (isPlayerBullet b \<and> firstOverlap b es \<noteq> None)) bs"
proof (induction bs arbitrary: ctx)
  case Nil
  show ?case by (simp add: bulletsVsEnemies_Nil)
next
  case (Cons b bs)
  have same: "firstOverlap b (fst ctx) = firstOverlap b es"
    using Cons.prems by (rule firstOverlap_boxes)
  have hit: "snd (hitLoop b (fst ctx)) \<longleftrightarrow> firstOverlap b es \<noteq> None"
    by (simp add: hitLoop_firstOverlap same split: option.split)
  have boxes: "map GetHitbox (fst (hitLoop b (fst ctx))) = map GetHitbox es"
    using Cons.prems by (simp add: hitLoop_enemies)
  show ?case
    using Cons.IH [of ctx, OF Cons.prems]
      Cons.IH [of "(fst (hitLoop b (fst ctx)), PlayExplosion (snd ctx))"]
      Cons.IH [of "(fst (hitLoop b (fst ctx)), snd ctx)"] boxes
    by (simp add: bulletsVsEnemies_Cons hit)
qed


lemma bulletsVsEnemies_damage:
  "fst (snd (bulletsVsEnemies bs ctx)) =
     map (\<lambda>i. (fst ctx ! i)\<lparr>health := health (fst ctx ! i) - damageFrom bs (fst ctx) i\<rparr>)
       [0..<length (fst ctx)]"
proof (induction bs arbitrary: ctx)
  case Nil
  show ?case by (simp add: bulletsVsEnemies_Nil damageFrom_Nil map_nth)
next
  case (Cons b bs)
  let ?es = "fst ctx"
  show ?case
  proof (cases "isPlayerBullet b")
    case False
    then show ?thesis
      by (simp add: bulletsVsEnemies_Cons damageFrom_Cons Cons.IH)
  next
    case True
    show ?thesis
    proof (cases "firstOverlap b ?es")
      case None
      then have "hitLoop b ?es = (?es, False)"
        by (simp add: hitLoop_firstOverlap)
      with True None show ?thesis
        by (simp add: bulletsVsEnemies_Cons damageFrom_Cons Cons.IH)
    next
      case (Some k)
      let ?es1 = "?es[k := TakeDamage (damage b) (?es ! k)]"
      have hit: "hitLoop b ?es = (?es1, True)"
        using Some by (simp add: hitLoop_firstOverlap)
      have k: "k < length ?es"
        using Some by (simp add: firstOverlap_Some)
      have boxes: "map GetHitbox ?es1 = map GetHitbox ?es"
        using hitLoop_enemies(3) [of b ?es] by (simp add: hit)
      have dmg: "damageFrom bs ?es1 i = damageFrom bs ?es i" for i
        using boxes by (rule damageFrom_boxes)
      have step: "fst (snd (bulletsVsEnemies (b # bs) ctx)) =
          map (\<lambda>i. (?es1 ! i)\<lparr>health := health (?es1 ! i) - damageFrom bs ?es1 i\<rparr>)
            [0..<length ?es]"
        using True Cons.IH [of "(?es1, PlayExplosion (snd ctx))"]
        by (simp add: bulletsVsEnemies_Cons hit)
      have each: "(?es1 ! i)\<lparr>health := health (?es1 ! i) - damageFrom bs ?es1 i\<rparr> =
          (?es ! i)\<lparr>health := health (?es ! i) - damageFrom (b # bs) ?es i\<rparr>"
        if "i < length ?es" for i
      proof (cases "i = k")
        case True
        with k \<open>isPlayerBullet b\<close> Some show ?thesis
          unfolding dmg by (simp add: damageFrom_Cons TakeDamage_def)
      next
        case False
        with \<open>isPlayerBullet b\<close> Some show ?thesis
          unfolding dmg by (simp add: damageFrom_Cons)
      qed
      show ?thesis
        unfolding step by (rule map_cong) (simp_all add: each)
    qed
  qed
qed

lemma bulletsVsPlayer_player_bullets:
  "filter isPlayerBullet (fst (bulletsVsPlayer bs (p, a))) = filter isPlayerBullet bs"
  by (induction bs arbitrary: p a) (simp_all add: case_prod_beta)

lemma CheckCollisions_player_bullets:
  "filter isPlayerBullet (bullets (CheckCollisions s)) =
     filter (\<lambda>b. isPlayerBullet b \<and> firstOverlap b (enemies s) = None) (bullets s)"
proof -
  let ?r1 = "bulletsVsEnemies (bullets s) (enemies s, audio s)"
  let ?r2 = "enemiesVsPlayer (fst (snd ?r1)) (player s, snd (snd ?r1))"
  have "bullets (CheckCollisions s) = fst (bulletsVsPlayer (fst ?r1) ?r2)"
    by (simp add: CheckCollisions_def case_prod_beta)
  then have "filter isPlayerBullet (bullets (CheckCollisions s)) = filter isPlayerBullet (fst ?r1)"
    using bulletsVsPlayer_player_bullets [of "fst ?r1" "fst ?r2" "snd ?r2"] by simp
  also have "fst ?r1 =
      filter (\<lambda>b. \<not> (isPlayerBullet b \<and> firstOverlap b (enemies s) \<noteq> None)) (bullets s)"
    using bulletsVsEnemies_kept [of "(enemies s, audio s)" "enemies s" "bullets s"] by simp
  also have "filter isPlayerBullet \<dots> =
      filter (\<lambda>b. isPlayerBullet b \<and> firstOverlap b (enemies s) = None) (bullets s)"
    by (simp add: conj_commute cong: conj_cong)
  finally show ?thesis .
qed

lemma CheckCollisions_enemies_damage:
  "enemies (CheckCollisions s) =
     map (\<lambda>i. (enemies s ! i)\<lparr>health := health (enemies s ! i)
                 - damageFrom (bullets s) (enemies s) i\<rparr>) [0..<length (enemies s)]"
  using bulletsVsEnemies_damage [of "bullets s" "(enemies s, audio s)"]
  by (simp add: CheckCollisions_enemies)

section \<open>The drop check\<close>

lemma reapEffects_drop:
  assumes "type e \<noteq> BOSS"
  shows "upgrades (reapEffects e s) \<noteq> upgrades s \<longleftrightarrow>
           dropCheck (fst (GetRandomValue 0 100 (generator s)))"
  using assms by (simp add: reapEffects_def Let_def case_prod_beta SpawnUpgrade_def)

lemma drop_outcomes: "filter dropCheck [0..100] = [0..19]"
proof -
  have "[0..100] = [0..19] @ [20..100]"
    using upto_split2 [of 0 19 100] by simp
  moreover have "filter dropCheck [0..19] = [0..19]"
    by (simp add: dropCheck_def)
  moreover have "filter dropCheck [20..100] = []"
    by (simp add: dropCheck_def filter_empty_conv)
  ultimately show ?thesis by simp
qed

lemma map_int_upt: "map int [0..<Suc n] = [0..int n]"
proof (induction n)
  case 0
  show ?case by (simp add: upto_rec1)
next
  case (Suc n)
  have "[0..int (Suc n)] = [0..int n] @ [int (Suc n)]"
    using upto_rec2 [of 0 "int (Suc n)"] by simp
  with Suc show ?case by simp
qed

lemma reapLoop_single_drop:
  assumes "IsDead e" and "type e \<noteq> BOSS"
  shows "upgrades (snd (reapLoop [e] (startGame [r]))) \<noteq> [] \<longleftrightarrow> dropCheck (int (r mod 101))"
  using assms reapEffects_drop [of e "startGame [r]"]
  by (simp add: startGame_def newGame_def GetRandomValue_def)

section \<open>The sample play is reachable\<close>

lemma reachable_runFrames: "reachable s \<Longrightarrow> reachable (runFrames inputs s)"
  by (induction inputs s rule: runFrames.induct) (simp_all add: reachable.frame)

lemma reachable_play: "reachable (play n)"
  unfolding play_def by (rule reachable_runFrames) (rule reachable.start)

lemma runFrames_append: "runFrames (xs @ ys) s = runFrames ys (runFrames xs s)"
  by (induction xs s rule: runFrames.induct) simp_all

lemma play_add: "play (n + k) = runFrames (take k (drop n sampleInputs)) (play n)"
  by (simp add: play_def take_add runFrames_append)

lemma play_10:
  "play 10 =
     \<lparr>player =
         \<lparr>position = \<lparr>v_x = 400, v_y = 550\<rparr>, speed = 300, health = 3,
            color = BLUE, width = 50, height = 20, fireCooldown = 1 / 2,
            fireRate = 1 / 2, attackRange = 50, maxHealth = 3\<rparr>,
         enemies =
           [\<lparr>position = \<lparr>v_x = 0, v_y = 7045 / 2\<rparr>, speed = 50, health = 1,
               color = RED, width = 40, height = 40, shootTimer = 3 / 2,
               shootInterval = 2, type = SIMPLE, scoreValue = 10\<rparr>,
            \<lparr>position = \<lparr>v_x = 340, v_y = 284\<rparr>, speed = 40, health = 0,
               color = ORANGE, width = 120, height = 120, shootTimer = 0,
               shootInterval = 2, type = BOSS, scoreValue = 500\<rparr>,
            \<lparr>position = \<lparr>v_x = 0, v_y = 1045 / 2\<rparr>, speed = 50, health = 1,
               color = RED, width = 40, height = 40, shootTimer = 3 / 2,
               shootInterval = 2, type = SIMPLE, scoreValue = 10\<rparr>,
            \<lparr>position = \<lparr>v_x = 0, v_y = 60\<rparr>, speed = 50, health = 1, color = RED,
               width = 40, height = 40, shootTimer = 0, shootInterval = 2,
               type = SIMPLE, scoreValue = 10\<rparr>],
         bullets =
           [\<lparr>b_position = \<lparr>v_x = 380, v_y = 544\<rparr>, b_speed = 300,
               isPlayerBullet = False, b_color = RED, damage = 2\<rparr>,
            \<lparr>b_position = \<lparr>v_x = 380, v_y = 544\<rparr>, b_speed = 300,
               isPlayerBullet = False, b_color = RED, damage = 2\<rparr>,
            \<lparr>b_position = \<lparr>v_x = 380, v_y = 544\<rparr>, b_speed = 300,
               isPlayerBullet = False, b_color = RED, damage = 2\<rparr>,
            \<lparr>b_position = \<lparr>v_x = 380, v_y = 404\<rparr>, b_speed = 300,
               isPlayerBullet = False, b_color = RED, damage = 2\<rparr>,
            \<lparr>b_position = \<lparr>v_x = 380, v_y = 404\<rparr>, b_speed = 300,
               isPlayerBullet = False, b_color = RED, damage = 2\<rparr>,
            \<lparr>b_position = \<lparr>v_x = 380, v_y = 404\<rparr>, b_speed = 300,
               isPlayerBullet = False, b_color = RED, damage = 2\<rparr>,
            \<lparr>b_position = \<lparr>v_x = 20, v_y = 100\<rparr>, b_speed = 300,
               isPlayerBullet = False, b_color = RED, damage = 1\<rparr>],
         upgrades = [], score = 0, enemySpawnTimer = 3 / 2, bossSpawnTimer = 0,
         bossesDefeated = 0, bossActive = True,
         audio =
           [MusicPlay, MusicUpdate, Laser, MusicUpdate, MusicUpdate, Laser,
            MusicUpdate, Laser, Explosion, MusicUpdate, Laser, Explosion,
            MusicUpdate, Laser, Explosion, MusicUpdate, Laser, Explosion,
            MusicUpdate, Laser, Explosion, MusicUpdate, Laser, Explosion,
            MusicUpdate, Laser, Explosion],
         notifications = [], state = PLAYING, generator = [0],
         statics =
           \<lparr>directionChangeTimer = 1 / 2, direction = \<lparr>v_x = 0, v_y = 1 / 2\<rparr>\<rparr>\<rparr>"
  by code_simp

lemma play_13:
  "play 13 =
     \<lparr>player =
         \<lparr>position = \<lparr>v_x = 355, v_y = 550\<rparr>, speed = 300, health = 4,
            color = BLUE, width = 50, height = 20, fireCooldown = 7 / 20,
            fireRate = 1 / 2, attackRange = 50, maxHealth = 4\<rparr>,
         enemies =
           [\<lparr>position = \<lparr>v_x = 0, v_y = 3655\<rparr>, speed = 50, health = 1,
               color = RED, width = 40, height = 40, shootTimer = 3 / 20,
               shootInterval = 2, type = SIMPLE, scoreValue = 10\<rparr>,
            \<lparr>position = \<lparr>v_x = 0, v_y = 655\<rparr>, speed = 50, health = 1,
               color = RED, width = 40, height = 40, shootTimer = 3 / 20,
               shootInterval = 2, type = SIMPLE, scoreValue = 10\<rparr>,
            \<lparr>position = \<lparr>v_x = 0, v_y = 385 / 2\<rparr>, speed = 50, health = 1,
               color = RED, width = 40, height = 40, shootTimer = 3 / 20,
               shootInterval = 2, type = SIMPLE, scoreValue = 10\<rparr>,
            \<lparr>position = \<lparr>v_x = 0, v_y = 277 / 2\<rparr>, speed = 70, health = 1,
               color = GREEN, width = 40, height = 40, shootTimer = 3 / 20,
               shootInterval = 2, type = MID, scoreValue = 25\<rparr>],
         bullets =
           [\<lparr>b_position = \<lparr>v_x = 20, v_y = 270\<rparr>, b_speed = 300,
               isPlayerBullet = False, b_color = RED, damage = 1\<rparr>,
            \<lparr>b_position = \<lparr>v_x = 20, v_y = 213\<rparr>, b_speed = 300,
               isPlayerBullet = False, b_color = RED, damage = 1\<rparr>],
         upgrades = [], score = 500, enemySpawnTimer = 3 / 20,
         bossSpawnTimer = 51 / 20, bossesDefeated = 1, bossActive = False,
         audio =
           [MusicPlay, MusicUpdate, Laser, MusicUpdate, MusicUpdate, Laser,
            MusicUpdate, Laser, Explosion, MusicUpdate, Laser, Explosion,
            MusicUpdate, Laser, Explosion, MusicUpdate, Laser, Explosion,
            MusicUpdate, Laser, Explosion, MusicUpdate, Laser, Explosion,
            MusicUpdate, Laser, Explosion, MusicUpdate, MusicUpdate, Laser,
            MusicUpdate, UpgradeCue],
         notifications = [(''MAX HEALTH +1'', 2)], state = PLAYING,
         generator = [],
         statics =
           \<lparr>directionChangeTimer = 3 / 5, direction = \<lparr>v_x = 0, v_y = 1 / 2\<rparr>\<rparr>\<rparr>"
  (is "_ = ?s13")
proof -
  have "play 13 = runFrames (take 3 (drop 10 sampleInputs)) (play 10)"
    using play_add [of 10 3] by simp
  also have "\<dots> = ?s13"
    unfolding play_10 by code_simp
  finally show ?thesis .
qed

lemma play_17:
  "play 17 =
     \<lparr>player =
         \<lparr>position = \<lparr>v_x = 0, v_y = 550\<rparr>, speed = 300, health = 0, color = BLUE,
            width = 50, height = 20, fireCooldown = 1 / 2, fireRate = 1 / 2,
            attackRange = 50, maxHealth = 4\<rparr>,
         enemies =
           [\<lparr>position = \<lparr>v_x = 0, v_y = 4015\<rparr>, speed = 50, health = 1,
               color = RED, width = 40, height = 40, shootTimer = 0,
               shootInterval = 2, type = SIMPLE, scoreValue = 10\<rparr>,
            \<lparr>position = \<lparr>v_x = 0, v_y = 1015\<rparr>, speed = 50, health = 1,
               color = RED, width = 40, height = 40, shootTimer = 0,
               shootInterval = 2, type = SIMPLE, scoreValue = 10\<rparr>,
            \<lparr>position = \<lparr>v_x = 0, v_y = 1105 / 2\<rparr>, speed = 50, health = 1,
               color = RED, width = 40, height = 40, shootTimer = 0,
               shootInterval = 2, type = SIMPLE, scoreValue = 10\<rparr>,
            \<lparr>position = \<lparr>v_x = 0, v_y = 1285 / 2\<rparr>, speed = 70, health = 1,
               color = GREEN, width = 40, height = 40, shootTimer = 0,
               shootInterval = 2, type = MID, scoreValue = 25\<rparr>,
            \<lparr>position = \<lparr>v_x = 0, v_y = 380\<rparr>, speed = 70, health = 1,
               color = GREEN, width = 40, height = 40, shootTimer = 0,
               shootInterval = 2, type = MID, scoreValue = 25\<rparr>],
         bullets =
           [\<lparr>b_position = \<lparr>v_x = 20, v_y = 1185 / 2\<rparr>, b_speed = 300,
               isPlayerBullet = False, b_color = RED, damage = 1\<rparr>,
            \<lparr>b_position = \<lparr>v_x = 20, v_y = 420\<rparr>, b_speed = 300,
               isPlayerBullet = False, b_color = RED, damage = 1\<rparr>],
         upgrades = [], score = 500, enemySpawnTimer = 0,
         bossSpawnTimer = 39 / 4, bossesDefeated = 1, bossActive = False,
         audio =
           [MusicPlay, MusicUpdate, Laser, MusicUpdate, MusicUpdate, Laser,
            MusicUpdate, Laser, Explosion, MusicUpdate, Laser, Explosion,
            MusicUpdate, Laser, Explosion, MusicUpdate, Laser, Explosion,
            MusicUpdate, Laser, Explosion, MusicUpdate, Laser, Explosion,
            MusicUpdate, Laser, Explosion, MusicUpdate, MusicUpdate, Laser,
            MusicUpdate, UpgradeCue, MusicUpdate, Laser, Explosion, MusicUpdate,
            Laser, Explosion, MusicUpdate, Explosion, MusicUpdate, Explosion],
         notifications = [], state = PLAYING, generator = [],
         statics =
           \<lparr>directionChangeTimer = 3 / 5, direction = \<lparr>v_x = 0, v_y = 1 / 2\<rparr>\<rparr>\<rparr>"
  (is "_ = ?s17")
proof -
  have "play 17 = runFrames (take 4 (drop 13 sampleInputs)) (play 13)"
    using play_add [of 13 4] by simp
  also have "\<dots> = ?s17"
    unfolding play_13 by code_simp
  finally show ?thesis .
qed

lemma play_19:
  "play 19 =
     \<lparr>player =
         \<lparr>position = \<lparr>v_x = 0, v_y = 550\<rparr>, speed = 300, health = 0, color = BLUE,
            width = 50, height = 20, fireCooldown = 1 / 2, fireRate = 1 / 2,
            attackRange = 50, maxHealth = 4\<rparr>,
         enemies =
           [\<lparr>position = \<lparr>v_x = 0, v_y = 4015\<rparr>, speed = 50, health = 1,
               color = RED, width = 40, height = 40, shootTimer = 0,
               shootInterval = 2, type = SIMPLE, scoreValue = 10\<rparr>,
            \<lparr>position = \<lparr>v_x = 0, v_y = 1015\<rparr>, speed = 50, health = 1,
               color = RED, width = 40, height = 40, shootTimer = 0,
               shootInterval = 2, type = SIMPLE, scoreValue = 10\<rparr>,
            \<lparr>position = \<lparr>v_x = 0, v_y = 1105 / 2\<rparr>, speed = 50, health = 1,
               color = RED, width = 40, height = 40, shootTimer = 0,
               shootInterval = 2, type = SIMPLE, scoreValue = 10\<rparr>,
            \<lparr>position = \<lparr>v_x = 0, v_y = 1285 / 2\<rparr>, speed = 70, health = 1,
               color = GREEN, width = 40, height = 40, shootTimer = 0,
               shootInterval = 2, type = MID, scoreValue = 25\<rparr>,
            \<lparr>position = \<lparr>v_x = 0, v_y = 380\<rparr>, speed = 70, health = 1,
               color = GREEN, width = 40, height = 40, shootTimer = 0,
               shootInterval = 2, type = MID, scoreValue = 25\<rparr>],
         bullets =
           [\<lparr>b_position = \<lparr>v_x = 20, v_y = 1185 / 2\<rparr>, b_speed = 300,
               isPlayerBullet = False, b_color = RED, damage = 1\<rparr>,
            \<lparr>b_position = \<lparr>v_x = 20, v_y = 420\<rparr>, b_speed = 300,
               isPlayerBullet = False, b_color = RED, damage = 1\<rparr>],
         upgrades = [], score = 500, enemySpawnTimer = 0,
         bossSpawnTimer = 39 / 4, bossesDefeated = 1, bossActive = False,
         audio =
           [MusicPlay, MusicUpdate, Laser, MusicUpdate, MusicUpdate, Laser,
            MusicUpdate, Laser, Explosion, MusicUpdate, Laser, Explosion,
            MusicUpdate, Laser, Explosion, MusicUpdate, Laser, Explosion,
            MusicUpdate, Laser, Explosion, MusicUpdate, Laser, Explosion,
            MusicUpdate, Laser, Explosion, MusicUpdate, MusicUpdate, Laser,
            MusicUpdate, UpgradeCue, MusicUpdate, Laser, Explosion, MusicUpdate,
            Laser, Explosion, MusicUpdate, Explosion, MusicUpdate, Explosion,
            MusicUpdate],
         notifications = [], state = GAME_OVER, generator = [],
         statics =
           \<lparr>directionChangeTimer = 3 / 5, direction = \<lparr>v_x = 0, v_y = 1 / 2\<rparr>\<rparr>\<rparr>"
  (is "_ = ?s19")
proof -
  have "play 19 = runFrames (take 2 (drop 17 sampleInputs)) (play 17)"
    using play_add [of 17 2] by simp
  also have "\<dots> = ?s19"
    unfolding play_17 by code_simp
  finally show ?thesis .
qed

section \<open>The claims\<close>

text \<open>
  C1. In the PLAYING state, when the player is dead (health at most 0) right after its own
  update, \<^verbatim>\<open>UpdateGame\<close> sets the state to GAME_OVER and runs nothing else: the frame's
  result is the game as the player's update left it, with only the state changed. So the
  spawn timers, the enemies, the upgrades, the notifications, the score, \<open>bossesDefeated\<close>
  and \<open>bossActive\<close> are those of the start of the frame, and the bullets are those the
  player's update left.
\<close>

theorem dead_player_ends_frame:
  assumes "IsDead (player (stepPlayer keys dt s))"
  shows "UpdateGame keys dt s = (stepPlayer keys dt s)\<lparr>state := GAME_OVER\<rparr>
       \<and> state (UpdateGame keys dt s) = GAME_OVER
       \<and> enemySpawnTimer (UpdateGame keys dt s) = enemySpawnTimer s
       \<and> bossSpawnTimer (UpdateGame keys dt s) = bossSpawnTimer s
       \<and> enemies (UpdateGame keys dt s) = enemies s
       \<and> bullets (UpdateGame keys dt s) = bullets (stepPlayer keys dt s)
       \<and> upgrades (UpdateGame keys dt s) = upgrades s
       \<and> notifications (UpdateGame keys dt s) = notifications s
       \<and> score (UpdateGame keys dt s) = score s
       \<and> bossesDefeated (UpdateGame keys dt s) = bossesDefeated s
       \<and> bossActive (UpdateGame keys dt s) = bossActive s"
  using assms by (simp add: UpdateGame_def Let_def stepPlayer_frame)

theorem dead_player_ends_frame_witness:
  "reachable (play 17) \<and> state (play 17) = PLAYING
   \<and> IsDead (player (stepPlayer noKeys 0 (play 17)))
   \<and> state (UpdateGame noKeys 0 (play 17)) = GAME_OVER
   \<and> length (enemies (UpdateGame noKeys 0 (play 17))) = 5
   \<and> score (UpdateGame noKeys 0 (play 17)) = 500
   \<and> enemySpawnTimer (UpdateGame noKeys 0 (play 17)) = 0
   \<and> bossSpawnTimer (UpdateGame noKeys 0 (play 17)) = 39 / 4"
proof -
  have h: "IsDead (player (stepPlayer noKeys 0 (play 17)))"
    by (simp add: IsDead_def stepPlayer_player play_17)
  have a: "state (play 17) = PLAYING" "length (enemies (play 17)) = 5" "score (play 17) = 500"
      "enemySpawnTimer (play 17) = 0" "bossSpawnTimer (play 17) = 39 / 4"
    by (simp_all add: play_17)
  from dead_player_ends_frame [OF h, THEN conjunct2] h a reachable_play [of 17]
  show ?thesis by simp
qed

text \<open>
  C2. In every reachable state, while \<open>bossActive\<close> is set at most one BOSS is among the
  enemies (and none while it is clear). \<^verbatim>\<open>SpawnBoss\<close> does nothing while \<open>bossActive\<close> is
  set. No step of the frame other than the reaping pass of \<^verbatim>\<open>UpdateEnemies\<close> clears
  \<open>bossActive\<close>; that pass clears it exactly when it reaps a BOSS, and it adds the number of
  reaped bosses to \<open>bossesDefeated\<close>. Over a whole frame that starts with \<open>bossActive\<close>
  set, the flag is clear afterwards exactly when the player lived and a BOSS was reaped.
\<close>

theorem boss_gate:
  assumes "reachable s"
  shows "(bossActive s \<longrightarrow> bossCount (enemies s) \<le> 1)
       \<and> (\<not> bossActive s \<longrightarrow> bossCount (enemies s) = 0)
       \<and> (bossActive s \<longrightarrow> SpawnBoss dt s = s)
       \<and> bossCount (enemies (SpawnBoss dt s)) \<le> 1
       \<and> (bossActive s \<longrightarrow>
            bossActive (stepPlayer keys dt s) \<and> bossActive (SpawnEnemies dt s) \<and>
            bossActive (SpawnBoss dt s) \<and> bossActive (UpdateBullets dt s) \<and>
            bossActive (UpdateUpgrades dt s) \<and> bossActive (UpdateNotifications dt s) \<and>
            bossActive (CheckCollisions s))
       \<and> bossActive (UpdateEnemies dt s) = (bossActive s \<and> bossCount (reapedEnemies dt s) = 0)
       \<and> bossesDefeated (UpdateEnemies dt s) =
            bossesDefeated s + int (bossCount (reapedEnemies dt s))
       \<and> (bossActive s \<longrightarrow>
            (\<not> bossActive (UpdateGame keys dt s) \<longleftrightarrow>
               \<not> IsDead (player (stepPlayer keys dt s)) \<and>
               bossCount (reapedEnemies dt (beforeEnemies keys dt s)) \<noteq> 0))"
proof -
  have wf: "wellFormed s" using assms by (rule reachable_wellFormed)
  then have count: "bossCount (enemies s) = (if bossActive s then 1 else 0)"
    by (simp add: wellFormed_def)
  have "wellFormed (SpawnBoss dt s)" using wf by (rule wellFormed_SpawnBoss)
  then have spawn: "bossCount (enemies (SpawnBoss dt s)) \<le> 1"
    by (simp add: wellFormed_def)
  have gate: "bossActive s \<longrightarrow> SpawnBoss dt s = s"
    by (simp add: SpawnBoss_def)
  have steps: "bossActive s \<longrightarrow>
            bossActive (stepPlayer keys dt s) \<and> bossActive (SpawnEnemies dt s) \<and>
            bossActive (SpawnBoss dt s) \<and> bossActive (UpdateBullets dt s) \<and>
            bossActive (UpdateUpgrades dt s) \<and> bossActive (UpdateNotifications dt s) \<and>
            bossActive (CheckCollisions s)"
    by (simp add: stepPlayer_frame SpawnEnemies_frame UpdateBullets_frame UpdateUpgrades_frame
        UpdateNotifications_frame CheckCollisions_frame SpawnBoss_def)
  have whole: "bossActive s \<longrightarrow>
            (\<not> bossActive (UpdateGame keys dt s) \<longleftrightarrow>
               \<not> IsDead (player (stepPlayer keys dt s)) \<and>
               bossCount (reapedEnemies dt (beforeEnemies keys dt s)) \<noteq> 0)"
    by (simp add: UpdateGame_bossActive)
  from count spawn gate steps whole show ?thesis
    by (simp only: UpdateEnemies_bossActive UpdateEnemies_bossesDefeated simp_thms split: if_splits)
qed

theorem boss_gate_witness:
  "reachable (play 10) \<and> bossActive (play 10) \<and> bossCount (enemies (play 10)) = 1
   \<and> SpawnBoss (1 / 10) (play 10) = play 10
   \<and> \<not> IsDead (player (stepPlayer noKeys (1 / 10) (play 10)))
   \<and> bossCount (reapedEnemies (1 / 10) (beforeEnemies noKeys (1 / 10) (play 10))) = 1
   \<and> \<not> bossActive (UpdateGame noKeys (1 / 10) (play 10))
   \<and> reachable (play 13) \<and> \<not> bossActive (play 13) \<and> bossCount (enemies (play 13)) = 0"
proof -
  have a: "bossActive (play 10)" "\<not> bossActive (play 13)"
    by (simp_all add: play_10 play_13)
  have b: "\<not> IsDead (player (stepPlayer noKeys (1 / 10) (play 10)))"
    by (simp add: IsDead_def stepPlayer_player play_10)
  have c: "bossCount (reapedEnemies (1 / 10) (beforeEnemies noKeys (1 / 10) (play 10))) = 1"
    unfolding play_10 by code_simp
  have d: "bossCount (enemies (play 10)) = 1"
    unfolding play_10 by code_simp
  from boss_gate [OF reachable_play [of 10], of "1 / 10" noKeys]
    boss_gate [OF reachable_play [of 13], of 0 noKeys] a b c d reachable_play [of 10]
    reachable_play [of 13]
  show ?thesis by simp
qed

text \<open>
  C3. In pass (a) of the collision resolution, a player bullet damages the first enemy in
  list order whose hitbox it overlaps (circle against rectangle, radius 5), by its
  \<open>damage\<close>, and no other enemy; the bullets that leave the pass are those that hit
  nothing, and every enemy stays in the list at its place, whatever its health: the health
  of the enemy at position \<open>i\<close> drops by the summed damage of the player bullets whose
  first overlap is \<open>i\<close>. In the world that \<^verbatim>\<open>CheckCollisions\<close> leaves, the enemies are
  those of pass (a), so none is removed, and the player bullets are those that overlapped no
  enemy: a player bullet that hit is gone.
\<close>

theorem player_bullet_hits_first_enemy:
  "hitLoop b es =
     (case firstOverlap b es of
        None \<Rightarrow> (es, False)
      | Some i \<Rightarrow> (es[i := TakeDamage (damage b) (es ! i)], True))
   \<and> (firstOverlap b es = Some i \<longleftrightarrow>
        i < length es \<and> CheckCollisionCircleRec (b_position b) 5 (GetHitbox (es ! i)) \<and>
        (\<forall>j<i. \<not> CheckCollisionCircleRec (b_position b) 5 (GetHitbox (es ! j))))
   \<and> fst (bulletsVsEnemies bs (es, a)) =
        filter (\<lambda>b. \<not> (isPlayerBullet b \<and> firstOverlap b es \<noteq> None)) bs
   \<and> fst (snd (bulletsVsEnemies bs (es, a))) =
        map (\<lambda>i. (es ! i)\<lparr>health := health (es ! i) - damageFrom bs es i\<rparr>) [0..<length es]
   \<and> length (fst (snd (bulletsVsEnemies bs (es, a)))) = length es
   \<and> enemies (CheckCollisions s) =
        fst (snd (bulletsVsEnemies (bullets s) (enemies s, audio s)))
   \<and> length (enemies (CheckCollisions s)) = length (enemies s)
   \<and> enemies (CheckCollisions s) =
        map (\<lambda>i. (enemies s ! i)\<lparr>health := health (enemies s ! i)
                    - damageFrom (bullets s) (enemies s) i\<rparr>) [0..<length (enemies s)]
   \<and> filter isPlayerBullet (bullets (CheckCollisions s)) =
        filter (\<lambda>b. isPlayerBullet b \<and> firstOverlap b (enemies s) = None) (bullets s)"
proof -
  have first: "firstOverlap b es = Some i \<longleftrightarrow>
        i < length es \<and> CheckCollisionCircleRec (b_position b) 5 (GetHitbox (es ! i)) \<and>
        (\<forall>j<i. \<not> CheckCollisionCircleRec (b_position b) 5 (GetHitbox (es ! j)))"
    using firstOverlap_Some [of b es i] by (simp add: overlaps_def)
  have kept: "fst (bulletsVsEnemies bs (es, a)) =
        filter (\<lambda>b. \<not> (isPlayerBullet b \<and> firstOverlap b es \<noteq> None)) bs"
    using bulletsVsEnemies_kept [of "(es, a)" es bs] by simp
  have dmg: "fst (snd (bulletsVsEnemies bs (es, a))) =
        map (\<lambda>i. (es ! i)\<lparr>health := health (es ! i) - damageFrom bs es i\<rparr>) [0..<length es]" for bs es a
    using bulletsVsEnemies_damage [of bs "(es, a)"] by simp
  have len: "length (fst (snd (bulletsVsEnemies bs (es, a)))) = length es" for bs es a
    by (simp add: dmg)
  have world: "enemies (CheckCollisions s) =
        fst (snd (bulletsVsEnemies (bullets s) (enemies s, audio s)))"
    by (rule CheckCollisions_enemies)
  have wlen: "length (enemies (CheckCollisions s)) = length (enemies s)"
    by (simp add: world len)
  show ?thesis
    by (intro conjI hitLoop_firstOverlap first kept dmg len world wlen
        CheckCollisions_enemies_damage CheckCollisions_player_bullets)
qed

theorem player_bullet_hits_first_enemy_witness:
  "firstOverlap (mkBullet \<lparr>v_x = 20, v_y = 20\<rparr> True 1)
     [newEnemy \<lparr>v_x = 0, v_y = 0\<rparr> SIMPLE, newEnemy \<lparr>v_x = 10, v_y = 10\<rparr> HARD] = Some 0
   \<and> fst (bulletsVsEnemies [mkBullet \<lparr>v_x = 20, v_y = 20\<rparr> True 1]
        ([newEnemy \<lparr>v_x = 0, v_y = 0\<rparr> SIMPLE, newEnemy \<lparr>v_x = 10, v_y = 10\<rparr> HARD], [])) = []
   \<and> map health (fst (snd (bulletsVsEnemies [mkBullet \<lparr>v_x = 20, v_y = 20\<rparr> True 1]
        ([newEnemy \<lparr>v_x = 0, v_y = 0\<rparr> SIMPLE, newEnemy \<lparr>v_x = 10, v_y = 10\<rparr> HARD], []))))
       = [0, 2]
   \<and> bullets (CheckCollisions ((startGame [])
        \<lparr>bullets := [mkBullet \<lparr>v_x = 20, v_y = 20\<rparr> True 1,
                     mkBullet \<lparr>v_x = 300, v_y = 20\<rparr> True 1],
         enemies := [newEnemy \<lparr>v_x = 0, v_y = 0\<rparr> SIMPLE,
                     newEnemy \<lparr>v_x = 10, v_y = 10\<rparr> HARD]\<rparr>))
       = [mkBullet \<lparr>v_x = 300, v_y = 20\<rparr> True 1]
   \<and> map health (enemies (CheckCollisions ((startGame [])
        \<lparr>bullets := [mkBullet \<lparr>v_x = 20, v_y = 20\<rparr> True 1,
                     mkBullet \<lparr>v_x = 300, v_y = 20\<rparr> True 1],
         enemies := [newEnemy \<lparr>v_x = 0, v_y = 0\<rparr> SIMPLE,
                     newEnemy \<lparr>v_x = 10, v_y = 10\<rparr> HARD]\<rparr>)))
       = [0, 2]"
proof -
  have w: "bullets (CheckCollisions ((startGame [])
        \<lparr>bullets := [mkBullet \<lparr>v_x = 20, v_y = 20\<rparr> True 1,
                     mkBullet \<lparr>v_x = 300, v_y = 20\<rparr> True 1],
         enemies := [newEnemy \<lparr>v_x = 0, v_y = 0\<rparr> SIMPLE,
                     newEnemy \<lparr>v_x = 10, v_y = 10\<rparr> HARD]\<rparr>))
       = [mkBullet \<lparr>v_x = 300, v_y = 20\<rparr> True 1]"
    by code_simp
  have e: "map health (enemies (CheckCollisions ((startGame [])
        \<lparr>bullets := [mkBullet \<lparr>v_x = 20, v_y = 20\<rparr> True 1,
                     mkBullet \<lparr>v_x = 300, v_y = 20\<rparr> True 1],
         enemies := [newEnemy \<lparr>v_x = 0, v_y = 0\<rparr> SIMPLE,
                     newEnemy \<lparr>v_x = 10, v_y = 10\<rparr> HARD]\<rparr>)))
       = [0, 2]"
    by code_simp
  from player_bullet_hits_first_enemy
    [of "mkBullet \<lparr>v_x = 20, v_y = 20\<rparr> True 1"
        "[newEnemy \<lparr>v_x = 0, v_y = 0\<rparr> SIMPLE, newEnemy \<lparr>v_x = 10, v_y = 10\<rparr> HARD]"
        0 "[mkBullet \<lparr>v_x = 20, v_y = 20\<rparr> True 1]" "[]"
        "(startGame [])
          \<lparr>bullets := [mkBullet \<lparr>v_x = 20, v_y = 20\<rparr> True 1,
                       mkBullet \<lparr>v_x = 300, v_y = 20\<rparr> True 1],
           enemies := [newEnemy \<lparr>v_x = 0, v_y = 0\<rparr> SIMPLE,
                       newEnemy \<lparr>v_x = 10, v_y = 10\<rparr> HARD]\<rparr>", THEN conjunct2] w e
  show ?thesis
    by (simp add: mkBullet_def newEnemy_def GetHitbox_def CheckCollisionCircleRec_def Let_def
      overlaps_def damageFrom_def upt_rec)
qed

text \<open>
  C4. A restart from GAME_OVER (the ENTER key in the run loop) empties the enemies, bullets,
  upgrades and notifications, zeroes the score, both spawn timers and \<open>bossesDefeated\<close>,
  clears \<open>bossActive\<close>, puts the player back at its start position with a zero fire
  cooldown and with its health at the current \<open>maxHealth\<close>; \<open>maxHealth\<close>, \<open>fireRate\<close>
  and \<open>attackRange\<close> keep the values they had.
\<close>

theorem restart_resets_world_keeps_upgrades:
  assumes "state s = GAME_OVER" and "keyEnter keys"
  shows "RunFrame keys dt s = (ResetGame s)\<lparr>state := PLAYING\<rparr>
       \<and> enemies (RunFrame keys dt s) = []
       \<and> bullets (RunFrame keys dt s) = []
       \<and> upgrades (RunFrame keys dt s) = []
       \<and> notifications (RunFrame keys dt s) = []
       \<and> score (RunFrame keys dt s) = 0
       \<and> enemySpawnTimer (RunFrame keys dt s) = 0
       \<and> bossSpawnTimer (RunFrame keys dt s) = 0
       \<and> bossesDefeated (RunFrame keys dt s) = 0
       \<and> bossActive (RunFrame keys dt s) = False
       \<and> position (player (RunFrame keys dt s)) = \<lparr>v_x = 400, v_y = 550\<rparr>
       \<and> fireCooldown (player (RunFrame keys dt s)) = 0
       \<and> health (player (RunFrame keys dt s)) = maxHealth (player s)
       \<and> maxHealth (player (RunFrame keys dt s)) = maxHealth (player s)
       \<and> fireRate (player (RunFrame keys dt s)) = fireRate (player s)
       \<and> attackRange (player (RunFrame keys dt s)) = attackRange (player s)"
  using assms by (simp add: RunFrame_def ResetGame_def Reset_def)

theorem restart_resets_world_keeps_upgrades_witness:
  "reachable (play 19) \<and> state (play 19) = GAME_OVER
   \<and> keyEnter (noKeys\<lparr>keyEnter := True\<rparr>)
   \<and> score (play 19) = 500 \<and> length (enemies (play 19)) = 5
   \<and> health (player (play 19)) = 0 \<and> maxHealth (player (play 19)) = 4
   \<and> score (RunFrame (noKeys\<lparr>keyEnter := True\<rparr>) 0 (play 19)) = 0
   \<and> enemies (RunFrame (noKeys\<lparr>keyEnter := True\<rparr>) 0 (play 19)) = []
   \<and> health (player (RunFrame (noKeys\<lparr>keyEnter := True\<rparr>) 0 (play 19))) = 4
   \<and> maxHealth (player (RunFrame (noKeys\<lparr>keyEnter := True\<rparr>) 0 (play 19))) = 4"
proof -
  have h: "state (play 19) = GAME_OVER" "keyEnter (noKeys\<lparr>keyEnter := True\<rparr>)"
    by (simp_all add: play_19)
  have a: "score (play 19) = 500" "length (enemies (play 19)) = 5"
      "health (player (play 19)) = 0" "maxHealth (player (play 19)) = 4"
    by (simp_all add: play_19)
  from restart_resets_world_keeps_upgrades [OF h, of 0, THEN conjunct2] h a reachable_play [of 19]
  show ?thesis by simp
qed

text \<open>
  C5. The drop check of a reaped non-boss enemy draws from \<open>0 .. 100\<close>, both bounds
  included, and drops an upgrade when the value is below 20. Reaping one dead SIMPLE enemy
  under each of the 101 raw values \<open>0 .. 100\<close> of the generator yields an upgrade in 20
  cases: the draw takes each of the 101 values \<open>0 .. 100\<close>, 20 of them pass the check, and
  \<open>20 / 101\<close> is not 20 percent.
\<close>

theorem drop_chance_is_20_of_101:
  "length (filter (\<lambda>r. upgrades (snd (reapLoop
              [(newEnemy \<lparr>v_x = 100, v_y = 300\<rparr> SIMPLE)\<lparr>health := 0\<rparr>]
              (startGame [r]))) \<noteq> []) [0..<101]) = 20
   \<and> length [0..<101] = 101
   \<and> map (\<lambda>r. fst (GetRandomValue 0 100 [r])) [0..<101] = [0..100]
   \<and> length (filter dropCheck [0..100]) = 20
   \<and> (20::real) / 101 \<noteq> 20 / 100"
proof -
  let ?e = "(newEnemy \<lparr>v_x = 100, v_y = 300\<rparr> SIMPLE)\<lparr>health := 0\<rparr>"
  have e: "IsDead ?e" "type ?e \<noteq> BOSS"
    by (simp_all add: IsDead_def newEnemy_def)
  have ints: "map int [0..<101] = [0..100]"
    using map_int_upt [of 100] by simp
  have "filter (\<lambda>r. upgrades (snd (reapLoop [?e] (startGame [r]))) \<noteq> []) [0..<101] =
        filter (\<lambda>r. dropCheck (int r)) [0..<101]"
    by (rule filter_cong) (simp_all add: reapLoop_single_drop [OF e] del: reapLoop.simps)
  also have "length \<dots> = length (filter dropCheck (map int [0..<101]))"
    by (simp add: filter_map comp_def)
  finally have code: "length (filter (\<lambda>r. upgrades (snd (reapLoop [?e] (startGame [r]))) \<noteq> [])
      [0..<101]) = 20"
    by (simp add: ints drop_outcomes)
  have "map (\<lambda>r. fst (GetRandomValue 0 100 [r])) [0..<101] = map int [0..<101]"
    by (rule map_cong) (simp_all add: GetRandomValue_def)
  with code show ?thesis by (simp add: ints drop_outcomes)
qed

text \<open>
  C6. Starting from any fire rate of at least 0.1, any number of calls of
  \<^verbatim>\<open>UpgradeFireRate\<close> leaves the fire rate at least 0.1: a call subtracts 0.1 unless the
  result would be below 0.1, and then it sets the fire rate to 0.1.
\<close>

theorem fire_rate_floor:
  assumes "fireRate p \<ge> 0.1"
  shows "fireRate ((UpgradeFireRate ^^ n) p) \<ge> 0.1
       \<and> fireRate (UpgradeFireRate p) =
           (if fireRate p - 0.1 < 0.1 then 0.1 else fireRate p - 0.1)
       \<and> fireRate (UpgradeFireRate p) \<ge> 0.1"
proof (intro conjI)
  show "fireRate ((UpgradeFireRate ^^ n) p) \<ge> 0.1"
    using assms by (rule UpgradeFireRate_pow_floor)
  show "fireRate (UpgradeFireRate p) = (if fireRate p - 0.1 < 0.1 then 0.1 else fireRate p - 0.1)"
    by (simp add: UpgradeFireRate_def)
  show "fireRate (UpgradeFireRate p) \<ge> 0.1"
    by (rule UpgradeFireRate_floor)
qed

theorem fire_rate_floor_witness:
  "fireRate newPlayer \<ge> 0.1
   \<and> fireRate ((UpgradeFireRate ^^ 6) newPlayer) \<ge> 0.1
   \<and> fireRate (UpgradeFireRate newPlayer) = 0.4"
proof -
  have h: "fireRate newPlayer \<ge> 0.1" by (simp add: newPlayer_def)
  from fire_rate_floor [OF h, of 6] h show ?thesis
    by (simp add: newPlayer_def)
qed

text \<open>
  C7, as the code has it. \<^verbatim>\<open>UpdateGame\<close> does not clamp the frame time: a negative
  \<open>dt\<close> is applied as supplied. With \<open>dt < 0\<close> and the player alive, one update leaves
  the enemy spawn timer at \<open>enemySpawnTimer + dt\<close> (at 0 when that sum is 2 or more),
  which is never above its old value; the fire cooldown at \<open>fireCooldown - dt\<close> when that
  is positive, and at \<open>fireRate\<close> otherwise; and the boss spawn timer, while no boss is
  active, at \<open>bossSpawnTimer + dt\<close> (at 0 when that sum is 60 or more), and where it was
  while a boss is active. So the update with a negative \<open>dt\<close> is not always the update
  with \<open>dt = 0\<close>: from the start state, whatever the keys and the seed, the update with
  \<open>dt = -1\<close> and the update with \<open>dt = 0\<close> differ, the enemy spawn timer ending at
  \<open>-1\<close> and at \<open>0\<close>.
\<close>

theorem negative_dt_is_applied:
  assumes "dt < 0" and "\<not> IsDead (player s)"
  shows "enemySpawnTimer (UpdateGame keys dt s) =
           (if 2 \<le> enemySpawnTimer s + dt then 0 else enemySpawnTimer s + dt)
       \<and> enemySpawnTimer (UpdateGame keys dt s) \<le> enemySpawnTimer s
       \<and> fireCooldown (player (UpdateGame keys dt s)) =
           (if fireCooldown (player s) - dt \<le> 0 then fireRate (player s)
            else fireCooldown (player s) - dt)
       \<and> bossSpawnTimer (UpdateGame keys dt s) =
           (if bossActive s then bossSpawnTimer s
            else if 60 \<le> bossSpawnTimer s + dt then 0 else bossSpawnTimer s + dt)
       \<and> UpdateGame keys (- 1) (startGame g) \<noteq> UpdateGame keys 0 (startGame g)
       \<and> enemySpawnTimer (UpdateGame keys (- 1) (startGame g)) = - 1
       \<and> enemySpawnTimer (UpdateGame keys 0 (startGame g)) = 0"
proof -
  have alive: "\<not> IsDead (player (stepPlayer keys dt s))"
    using assms(2) by (simp add: IsDead_def stepPlayer_player)
  then have run: "UpdateGame keys dt s = simulate dt (stepPlayer keys dt s)"
    by (rule UpdateGame_cases)
  have spawn: "enemySpawnTimer (UpdateGame keys dt s) =
           (if 2 \<le> enemySpawnTimer s + dt then 0 else enemySpawnTimer s + dt)"
    by (simp add: run simulate_timers stepPlayer_frame)
  have older: "enemySpawnTimer (UpdateGame keys dt s) \<le> enemySpawnTimer s"
    using assms(1) by (simp add: spawn)
  have cool: "fireCooldown (player (UpdateGame keys dt s)) =
           (if fireCooldown (player s) - dt \<le> 0 then fireRate (player s)
            else fireCooldown (player s) - dt)"
    by (simp add: run simulate_timers stepPlayer_cooldown)
  have boss: "bossSpawnTimer (UpdateGame keys dt s) =
           (if bossActive s then bossSpawnTimer s
            else if 60 \<le> bossSpawnTimer s + dt then 0 else bossSpawnTimer s + dt)"
    by (simp add: run simulate_timers SpawnBoss_def SpawnEnemies_frame stepPlayer_frame Let_def)
  have a: "enemySpawnTimer (UpdateGame keys (- 1) (startGame g)) = - 1"
    and b: "enemySpawnTimer (UpdateGame keys 0 (startGame g)) = 0"
    by (simp_all add: start_frame_spawn_timer)
  show ?thesis
    by (intro conjI spawn older cool boss start_frames_differ a b)
qed

theorem negative_dt_is_applied_witness:
  "(- 1 / 2 :: real) < 0
   \<and> reachable (play 13)
   \<and> \<not> IsDead (player (play 13))
   \<and> enemySpawnTimer (play 13) = 3 / 20
   \<and> enemySpawnTimer (UpdateGame noKeys (- 1 / 2) (play 13)) = - 7 / 20
   \<and> fireCooldown (player (play 13)) = 7 / 20
   \<and> fireCooldown (player (UpdateGame noKeys (- 1 / 2) (play 13))) = 17 / 20
   \<and> bossSpawnTimer (play 13) = 51 / 20
   \<and> bossSpawnTimer (UpdateGame noKeys (- 1 / 2) (play 13)) = 41 / 20"
proof -
  have h: "(- 1 / 2 :: real) < 0" "\<not> IsDead (player (play 13))"
    by (simp_all add: play_13 IsDead_def)
  have a: "enemySpawnTimer (play 13) = 3 / 20" "fireCooldown (player (play 13)) = 7 / 20"
      "bossSpawnTimer (play 13) = 51 / 20" "\<not> bossActive (play 13)"
    by (simp_all add: play_13)
  from negative_dt_is_applied [OF h, of noKeys] h a reachable_play [of 13]
  show ?thesis by simp
qed

text \<open>
  C7 as stated fails: from the start state, the frame with \<open>dt = -1\<close> and the frame with
  \<open>dt = 0\<close> give different games; the enemy spawn timer is \<open>-1\<close> after the first and
  \<open>0\<close> after the second.
\<close>

theorem negative_dt_counterexample:
  "(- 1 :: real) < 0
   \<and> UpdateGame \<lparr>keyLeft = False, keyRight = False, keyEnter = False\<rparr> (- 1) (startGame [])
       \<noteq> UpdateGame \<lparr>keyLeft = False, keyRight = False, keyEnter = False\<rparr> 0 (startGame [])
   \<and> enemySpawnTimer
        (UpdateGame \<lparr>keyLeft = False, keyRight = False, keyEnter = False\<rparr> (- 1) (startGame []))
       = - 1
   \<and> enemySpawnTimer
        (UpdateGame \<lparr>keyLeft = False, keyRight = False, keyEnter = False\<rparr> 0 (startGame []))
       = 0"
proof -
  let ?k = "\<lparr>keyLeft = False, keyRight = False, keyEnter = False\<rparr>"
  have alive: "\<not> IsDead (player (stepPlayer ?k dt (startGame [])))" for dt
    by (simp add: IsDead_def stepPlayer_player startGame_def newGame_def newPlayer_def)
  have t: "enemySpawnTimer (UpdateGame ?k dt (startGame [])) = (if dt \<ge> 2 then 0 else dt)" for dt
    unfolding UpdateGame_cases(2) [OF alive]
    by (simp add: simulate_timers stepPlayer_frame startGame_def newGame_def)
  have a: "enemySpawnTimer (UpdateGame ?k (- 1) (startGame [])) = - 1"
    by (simp add: t)
  have b: "enemySpawnTimer (UpdateGame ?k 0 (startGame [])) = 0"
    by (simp add: t)
  have "UpdateGame ?k (- 1) (startGame []) \<noteq> UpdateGame ?k 0 (startGame [])"
  proof
    assume "UpdateGame ?k (- 1) (startGame []) = UpdateGame ?k 0 (startGame [])"
    then have "enemySpawnTimer (UpdateGame ?k (- 1) (startGame []))
        = enemySpawnTimer (UpdateGame ?k 0 (startGame []))"
      by simp
    with a b show False by simp
  qed
  with a b show ?thesis by simp
qed

text \<open>
  C8. In every reachable state the player's health is at most its \<open>maxHealth\<close>. Both are
  3 at construction; \<^verbatim>\<open>Reset\<close> makes them equal; \<^verbatim>\<open>IncreaseMaxHealth\<close>,
  \<^verbatim>\<open>TakeDamage\<close> with a non-negative amount, \<^verbatim>\<open>UpgradeFireRate\<close>,
  \<^verbatim>\<open>UpgradeAttackRange\<close> and the player's \<^verbatim>\<open>Update\<close> keep the health within the
  maximum; and a player at full health is at the raised maximum after
  \<^verbatim>\<open>IncreaseMaxHealth\<close>.
\<close>

theorem health_within_max:
  assumes "reachable s"
  shows "health (player s) \<le> maxHealth (player s)
       \<and> health newPlayer = 3 \<and> maxHealth newPlayer = 3
       \<and> health (Reset p) = maxHealth (Reset p)
       \<and> (health p \<le> maxHealth p \<longrightarrow>
            health (IncreaseMaxHealth p) \<le> maxHealth (IncreaseMaxHealth p))
       \<and> (0 \<le> amount \<and> health p \<le> maxHealth p \<longrightarrow>
            health (TakeDamage amount p) \<le> maxHealth (TakeDamage amount p))
       \<and> (health p \<le> maxHealth p \<longrightarrow>
            health (UpgradeFireRate p) \<le> maxHealth (UpgradeFireRate p) \<and>
            health (UpgradeAttackRange p) \<le> maxHealth (UpgradeAttackRange p) \<and>
            health (fst (fst (Player_Update keys dt (p, bs, a))))
              \<le> maxHealth (fst (fst (Player_Update keys dt (p, bs, a)))))
       \<and> (health p = maxHealth p \<longrightarrow>
            health (IncreaseMaxHealth p) = maxHealth (IncreaseMaxHealth p) \<and>
            maxHealth (IncreaseMaxHealth p) = maxHealth p + 1)"
proof -
  have "wellFormed s" using assms by (rule reachable_wellFormed)
  then have inv: "health (player s) \<le> maxHealth (player s)"
    by (simp add: wellFormed_def)
  have update: "health p \<le> maxHealth p \<longrightarrow>
      health (fst (fst (Player_Update keys dt (p, bs, a))))
        \<le> maxHealth (fst (fst (Player_Update keys dt (p, bs, a))))"
    by (simp add: Player_Update_def Let_def)
  from inv update show ?thesis
    by (simp add: upgrade_player TakeDamage_simps TakeDamage_player)
       (simp add: newPlayer_def Reset_def)
qed

theorem health_within_max_witness:
  "reachable (play 13)
   \<and> health (player (play 13)) \<le> maxHealth (player (play 13))
   \<and> health (player (play 13)) = 4 \<and> maxHealth (player (play 13)) = 4
   \<and> health newPlayer = maxHealth newPlayer
   \<and> health (IncreaseMaxHealth newPlayer) = 4 \<and> maxHealth (IncreaseMaxHealth newPlayer) = 4
   \<and> (0::int) \<le> 2
   \<and> health (TakeDamage 2 newPlayer) \<le> maxHealth (TakeDamage 2 newPlayer)"
proof -
  have a: "health (player (play 13)) = 4" "maxHealth (player (play 13)) = 4"
    by (simp_all add: play_13)
  have b: "health newPlayer = maxHealth newPlayer" "maxHealth newPlayer = 3"
    by (simp_all add: newPlayer_def)
  from health_within_max [OF reachable_play [of 13], of newPlayer 2] a b reachable_play [of 13]
  show ?thesis by simp
qed

text \<open>
  C9. From a reachable state, one call of \<^verbatim>\<open>UpdateGame\<close> adds to the score the sum of the
  \<open>scoreValue\<close>s of the enemies its reaping pass erases (nothing when the player is dead
  and the frame ends early), so the score does not decrease; in the PLAYING state the run
  loop's frame is that call. A frame of the run loop lowers the score only on the restart
  path, which sets it to 0. The enemies that \<^verbatim>\<open>UpdateEnemies\<close> keeps are those its first
  loop leaves alive, so the reaped ones are exactly the erased ones.
\<close>

theorem score_grows_by_reaped:
  assumes "reachable s"
  shows "score (UpdateGame keys dt s) =
           score s + (if IsDead (player (stepPlayer keys dt s)) then 0
                      else sum_list (map scoreValue (reapedEnemies dt (beforeEnemies keys dt s))))
       \<and> score s \<le> score (UpdateGame keys dt s)
       \<and> (state s = PLAYING \<longrightarrow> RunFrame keys dt s = UpdateGame keys dt s)
       \<and> (score (RunFrame keys dt s) < score s \<longrightarrow>
            state s = GAME_OVER \<and> keyEnter keys \<and> score (RunFrame keys dt s) = 0)
       \<and> score (ResetGame s) = 0
       \<and> enemies (UpdateEnemies dt t) =
           filter (\<lambda>e. \<not> IsDead e)
             (fst (updateLoop dt (enemies t) (bullets t, generator t, statics t)))"
proof -
  have wf: "wellFormed s" using assms by (rule reachable_wellFormed)
  have nonneg: "0 \<le> sum_list (map scoreValue (reapedEnemies dt (beforeEnemies keys dt s)))"
    using wf by (intro reaped_scores_nonneg wellFormed_beforeEnemies)
  have mono: "score s \<le> score (UpdateGame keys dt s)"
    using nonneg by (simp add: UpdateGame_score)
  have frame: "state s = PLAYING \<longrightarrow> RunFrame keys dt s = UpdateGame keys dt s"
    by (simp add: RunFrame_def)
  have reset: "score (ResetGame s) = 0"
    by (simp add: ResetGame_def)
  have drop: "score (RunFrame keys dt s) < score s \<longrightarrow>
          state s = GAME_OVER \<and> keyEnter keys \<and> score (RunFrame keys dt s) = 0"
  proof (cases "state s")
    case PLAYING
    with mono show ?thesis by (simp add: RunFrame_def)
  next
    case GAME_OVER
    show ?thesis
    proof (cases "keyEnter keys")
      case True
      with GAME_OVER show ?thesis by (simp add: RunFrame_def reset)
    next
      case False
      with GAME_OVER show ?thesis by (simp add: RunFrame_def)
    qed
  qed
  from mono frame drop reset show ?thesis
    by (simp only: UpdateGame_score UpdateEnemies_enemies simp_thms)
qed

theorem score_grows_by_reaped_witness:
  "reachable (play 10) \<and> state (play 10) = PLAYING \<and> score (play 10) = 0
   \<and> \<not> IsDead (player (stepPlayer noKeys (1 / 10) (play 10)))
   \<and> map scoreValue (reapedEnemies (1 / 10) (beforeEnemies noKeys (1 / 10) (play 10))) = [500]
   \<and> score (RunFrame noKeys (1 / 10) (play 10)) = 500
   \<and> reachable (play 19) \<and> state (play 19) = GAME_OVER
   \<and> keyEnter (noKeys\<lparr>keyEnter := True\<rparr>)
   \<and> score (RunFrame (noKeys\<lparr>keyEnter := True\<rparr>) 0 (play 19)) < score (play 19)
   \<and> score (RunFrame (noKeys\<lparr>keyEnter := True\<rparr>) 0 (play 19)) = 0"
proof -
  have a: "state (play 10) = PLAYING" "score (play 10) = 0"
      "state (play 19) = GAME_OVER" "score (play 19) = 500"
    by (simp_all add: play_10 play_19)
  have b: "\<not> IsDead (player (stepPlayer noKeys (1 / 10) (play 10)))"
    by (simp add: IsDead_def stepPlayer_player play_10)
  have c: "map scoreValue (reapedEnemies (1 / 10) (beforeEnemies noKeys (1 / 10) (play 10))) = [500]"
    unfolding play_10 by code_simp
  have d: "score (RunFrame (noKeys\<lparr>keyEnter := True\<rparr>) 0 (play 19)) = 0"
    using a by (simp add: RunFrame_def ResetGame_def noKeys_def)
  from score_grows_by_reaped [OF reachable_play [of 10], of noKeys "1 / 10"]
    score_grows_by_reaped [OF reachable_play [of 19], of "noKeys\<lparr>keyEnter := True\<rparr>" 0]
    a b c d reachable_play [of 10] reachable_play [of 19]
  show ?thesis by (simp add: noKeys_def)
qed

text \<open>
  C10. The flag \<open>isBossDrop\<close> of \<^verbatim>\<open>SpawnUpgrade\<close> has no influence: from the same
  generator state and position, both values of the flag give the same game. Either way one
  upgrade is appended, at the given position, with timer 5, active, and with the type that
  one draw from \<open>0 .. 2\<close> selects.
\<close>

theorem boss_drop_flag_is_inert:
  "SpawnUpgrade pos True s = SpawnUpgrade pos False s
   \<and> upgrades (SpawnUpgrade pos isBossDrop s) =
       upgrades s @
         [\<lparr>fallSpeed = 100,
           u_type = toUpgradeType (fst (GetRandomValue 0 2 (generator s))),
           u_position = pos, timer = 5, active = True\<rparr>]
   \<and> generator (SpawnUpgrade pos isBossDrop s) = snd (GetRandomValue 0 2 (generator s))
   \<and> fst (GetRandomValue 0 2 (generator s)) \<in> {0, 1, 2}
   \<and> map toUpgradeType [0, 1, 2] = [HEALTH, FIRE_RATE, ATTACK_RANGE]"
proof -
  have "fst (GetRandomValue 0 2 g) \<in> {0, 1, 2}" for g
  proof (cases g)
    case Nil
    then show ?thesis by (simp add: GetRandomValue_def)
  next
    case (Cons r rest)
    have "r mod 3 < 3" by simp
    then have "int (r mod 3) = 0 \<or> int (r mod 3) = 1 \<or> int (r mod 3) = 2" by linarith
    with Cons show ?thesis by (auto simp add: GetRandomValue_def)
  qed
  then show ?thesis
    by (simp add: SpawnUpgrade_def case_prod_beta toUpgradeType_def)
qed

end
